theory Spec2Isabelle
  imports Main "HOL-Library.Word" "HOL-Library.Signed_Division"
begin

section \<open>The cuDNN convolution test utilities (cudnn_util.cc)\<close>

text \<open>
  A shallow embedding of \<^verbatim>\<open>nvidia_libs_test/cudnn_util.cc\<close>: the descriptor builders, the
  device-memory budget, the enumeration and search of convolution algorithms, and the
  dispatch of a convolution run.

  Machine integers carry their width. A C++ \<^verbatim>\<open>int\<close> holding a tensor dimension, a stride or
  a padding is a 32-bit word (\<open>+\<close>, \<open>-\<close> and \<open>*\<close> wrap, \<open>sint\<close> reads the signed value: signed
  overflow, which C++ leaves undefined, is taken to wrap as the machine does); a
  \<^verbatim>\<open>size_t\<close> is a 64-bit word (\<open>unat\<close> and \<open>uint\<close> read it). Ranks, loop indices and enumerator
  values are small counts and are kept as \<open>int\<close>.
\<close>

type_synonym int32 = "32 word"
type_synonym size_t = "64 word"

subsection \<open>Status values\<close>

text \<open>
  \<^verbatim>\<open>cudnnStatus_t\<close>: success, or one of the library's error codes.

  Modelled from the spec: \<^verbatim>\<open>Status\<close>, \<^verbatim>\<open>StatusOr\<close>, \<^verbatim>\<open>OkStatus\<close> and \<^verbatim>\<open>ErrorStatus\<close> are declared
  outside this file. A \<^verbatim>\<open>Status\<close> is success or a structured error; a \<^verbatim>\<open>StatusOr<T>\<close> is an error
  or a value, \<open>error + T\<close>. The text of an error message is kept as a value that names the
  site and carries the numbers the message prints.
\<close>

datatype cudnnStatus_t = CUDNN_STATUS_SUCCESS | CUDNN_STATUS_ERROR nat

datatype error =
    CudnnError cudnnStatus_t
  | CudaError nat
  | WorkspaceLimitTooLarge size_t size_t
  | NoSupportedAlgorithm
  | UnsupportedDirection int
  | OnlyNCHWForNon4D

datatype Status = OkStatus | ErrorStatus error

fun GetStatus :: "cudnnStatus_t \<Rightarrow> Status" where
  "GetStatus CUDNN_STATUS_SUCCESS = OkStatus"
| "GetStatus (CUDNN_STATUS_ERROR n) = ErrorStatus (CudnnError (CUDNN_STATUS_ERROR n))"

subsection \<open>The device-memory budget\<close>

text \<open>
  \<^verbatim>\<open>GetAvailableDeviceMemoryBytes\<close> reads two values it does not own: the file-level
  \<^verbatim>\<open>device_memory_limit_bytes\<close>, set once by the flag validator, and the allocator's
  \<^verbatim>\<open>GetAllocatedDeviceMemoryBytes()\<close> of cuda_util. Both are arguments here.
\<close>

definition GetAvailableDeviceMemoryBytes :: "size_t \<Rightarrow> size_t \<Rightarrow> size_t" where
  "GetAvailableDeviceMemoryBytes device_memory_limit_bytes allocated =
     max device_memory_limit_bytes allocated - allocated"

text \<open>
  The part of \<^verbatim>\<open>proto::ConvolutionConfig\<close> that \<^verbatim>\<open>GetWorkspaceLimit\<close> reads: the
  \<^verbatim>\<open>workspace_oneof\<close>, which either holds \<^verbatim>\<open>workspace_limit\<close> (already converted to
  \<^verbatim>\<open>size_t\<close>) or does not.
\<close>

definition GetWorkspaceLimit :: "size_t \<Rightarrow> size_t \<Rightarrow> size_t option \<Rightarrow> error + size_t" where
  "GetWorkspaceLimit device_memory_limit_bytes allocated workspace_oneof =
     (let available = GetAvailableDeviceMemoryBytes device_memory_limit_bytes allocated in
      case workspace_oneof of
        None \<Rightarrow> Inr available
      | Some limit \<Rightarrow>
          if limit > available then Inl (WorkspaceLimitTooLarge limit available)
          else Inr limit)"

subsection \<open>Enumerations and descriptor data\<close>

text \<open>
  The enumerations of cudnn.h that the file names. The \<^verbatim>\<open>proto::\<close> enumerations have the same
  values (the \<^verbatim>\<open>CHECK_ENUMERATOR\<close> static assertions at the end of the file), so one
  datatype serves both sides of each \<^verbatim>\<open>static_cast\<close>.
\<close>

datatype cudnnDataType_t =
    CUDNN_DATA_FLOAT | CUDNN_DATA_DOUBLE | CUDNN_DATA_HALF
  | CUDNN_DATA_INT8 | CUDNN_DATA_INT32 | CUDNN_DATA_INT8x4

datatype cudnnTensorFormat_t = CUDNN_TENSOR_NCHW | CUDNN_TENSOR_NHWC | CUDNN_TENSOR_NCHW_VECT_C

datatype cudnnConvolutionMode_t = CUDNN_CONVOLUTION | CUDNN_CROSS_CORRELATION

datatype cudnnMathType_t = CUDNN_DEFAULT_MATH | CUDNN_TENSOR_OP_MATH

text \<open>
  A descriptor is an opaque handle; all the file ever learns of one is what the library's
  \<^verbatim>\<open>cudnnGet...Descriptor\<close> reads back into the \<^verbatim>\<open>...DescriptorData\<close> structs. A descriptor is
  modelled by that data, and reading it back is taken to succeed (the file ends the process
  if it does not). The arrays have \<^verbatim>\<open>CUDNN_DIM_MAX\<close> slots of which the first \<open>rank\<close> are
  meaningful; a list holds the slots the library filled in. Field names carry the struct's
  kind as a prefix, since the three structs share their field names.
\<close>

record TensorDescriptorData =
  tensor_data_type :: cudnnDataType_t
  tensor_rank :: int
  tensor_dimensions :: "int32 list"
  tensor_strides :: "int32 list"

record FilterDescriptorData =
  filter_data_type :: cudnnDataType_t
  filter_format :: cudnnTensorFormat_t
  filter_rank :: int
  filter_dimensions :: "int32 list"

record ConvolutionDescriptorData =
  conv_rank :: int
  conv_pad :: "int32 list"
  conv_stride :: "int32 list"
  conv_dilation :: "int32 list"
  convolution_mode :: cudnnConvolutionMode_t
  compute_type :: cudnnDataType_t
  math_type :: cudnnMathType_t
  group_count :: int32

type_synonym TensorDescriptor = TensorDescriptorData
type_synonym FilterDescriptor = FilterDescriptorData
type_synonym ConvolutionDescriptor = ConvolutionDescriptorData

text \<open>
  A call that ends the process (a failed \<^verbatim>\<open>CHECK\<close> or a \<^verbatim>\<open>LOG(FATAL)\<close>) returns nothing to
  its caller: \<open>Aborts\<close> names the site. \<open>Returns\<close> carries the value the caller receives,
  which for a \<^verbatim>\<open>StatusOr<T>\<close> is \<open>error + T\<close>.
\<close>

datatype fatal =
    CHECK_data_type_set
  | CHECK_stride_xor_format
  | CHECK_rank_eq_stride_size
  | CHECK_format_NCHW
  | CHECK_compute_mode_set
  | CHECK_filter_format_NCHW
  | CHECK_dilation_all_ones
  | CHECK_stride_all_ones
  | CHECK_group_count_one
  | CHECK_format_set
  | Status_not_ok cudnnStatus_t
  | FATAL_not_yet_supported
  | FATAL_unsupported_direction int

datatype 'a outcome = Returns 'a | Aborts fatal

subsection \<open>Element counts\<close>

text \<open>
  \<^verbatim>\<open>GetTensorNumElements\<close>: \<^verbatim>\<open>result += static_cast<size_t>(dimensions[i] - 1) * strides[i]\<close>.
  The subtraction is done on \<^verbatim>\<open>int\<close>; both factors are then sign-extended to \<^verbatim>\<open>size_t\<close>
  (\<open>scast\<close>) and multiplied and added modulo \<open>2 ^ 64\<close>.
\<close>

function GetTensorNumElements_loop :: "TensorDescriptorData \<Rightarrow> int \<Rightarrow> size_t \<Rightarrow> size_t" where
  "GetTensorNumElements_loop data i result =
     (if i < tensor_rank data
      then GetTensorNumElements_loop data (i + 1)
             (result + scast (tensor_dimensions data ! nat i - 1) * scast (tensor_strides data ! nat i))
      else result)"
  by pat_completeness auto
termination
  by (relation "measure (\<lambda>(data, i, result). nat (tensor_rank data - i))") auto

declare GetTensorNumElements_loop.simps [simp del]

definition GetTensorNumElements :: "TensorDescriptor \<Rightarrow> size_t" where
  "GetTensorNumElements tensor = GetTensorNumElements_loop tensor 0 1"

definition GetTensorDataType :: "TensorDescriptor \<Rightarrow> cudnnDataType_t" where
  "GetTensorDataType tensor = tensor_data_type tensor"

text \<open>\<^verbatim>\<open>GetFilterNumElements\<close>: \<^verbatim>\<open>result *= dimensions[i]\<close>, on \<^verbatim>\<open>size_t\<close>.\<close>

function GetFilterNumElements_loop :: "FilterDescriptorData \<Rightarrow> int \<Rightarrow> size_t \<Rightarrow> size_t" where
  "GetFilterNumElements_loop data i result =
     (if i < filter_rank data
      then GetFilterNumElements_loop data (i + 1) (result * scast (filter_dimensions data ! nat i))
      else result)"
  by pat_completeness auto
termination
  by (relation "measure (\<lambda>(data, i, result). nat (filter_rank data - i))") auto

declare GetFilterNumElements_loop.simps [simp del]

definition GetFilterNumElements :: "FilterDescriptor \<Rightarrow> size_t" where
  "GetFilterNumElements filter_desc = GetFilterNumElements_loop filter_desc 0 1"

definition GetFilterDataType :: "FilterDescriptor \<Rightarrow> cudnnDataType_t" where
  "GetFilterDataType filter_desc = filter_data_type filter_desc"

text \<open>
  \<^verbatim>\<open>CreateDeviceData<T>\<close> belongs to cuda_util and is an argument: given the element kind that
  stands for \<^verbatim>\<open>T\<close>, the number of elements, the bounds and the random generator, it returns
  device memory or an error.
\<close>

definition CreateDeviceDataHelper ::
  "(cudnnDataType_t \<Rightarrow> size_t \<Rightarrow> 'r \<Rightarrow> 'r \<Rightarrow> 'g \<Rightarrow> error + 'm) \<Rightarrow>
   cudnnDataType_t \<Rightarrow> size_t \<Rightarrow> 'r \<Rightarrow> 'r \<Rightarrow> 'g \<Rightarrow> (error + 'm) outcome" where
  "CreateDeviceDataHelper CreateDeviceData data_type num_elements lower upper rand_gen =
     (case data_type of
        CUDNN_DATA_FLOAT \<Rightarrow> Returns (CreateDeviceData CUDNN_DATA_FLOAT num_elements lower upper rand_gen)
      | CUDNN_DATA_DOUBLE \<Rightarrow> Returns (CreateDeviceData CUDNN_DATA_DOUBLE num_elements lower upper rand_gen)
      | CUDNN_DATA_HALF \<Rightarrow> Returns (CreateDeviceData CUDNN_DATA_HALF num_elements lower upper rand_gen)
      | _ \<Rightarrow> Aborts FATAL_not_yet_supported)"

definition CreateTensorData ::
  "(cudnnDataType_t \<Rightarrow> size_t \<Rightarrow> 'r \<Rightarrow> 'r \<Rightarrow> 'g \<Rightarrow> error + 'm) \<Rightarrow>
   TensorDescriptor \<Rightarrow> 'r \<Rightarrow> 'r \<Rightarrow> 'g \<Rightarrow> (error + 'm) outcome" where
  "CreateTensorData CreateDeviceData tensor lower upper rand_gen =
     CreateDeviceDataHelper CreateDeviceData (GetTensorDataType tensor)
       (GetTensorNumElements tensor) lower upper rand_gen"

definition CreateFilterData ::
  "(cudnnDataType_t \<Rightarrow> size_t \<Rightarrow> 'r \<Rightarrow> 'r \<Rightarrow> 'g \<Rightarrow> error + 'm) \<Rightarrow>
   FilterDescriptor \<Rightarrow> 'r \<Rightarrow> 'r \<Rightarrow> 'g \<Rightarrow> (error + 'm) outcome" where
  "CreateFilterData CreateDeviceData filter_desc lower upper rand_gen =
     CreateDeviceDataHelper CreateDeviceData (GetFilterDataType filter_desc)
       (GetFilterNumElements filter_desc) lower upper rand_gen"

subsection \<open>The cuDNN library\<close>

text \<open>
  The entry points of the cuDNN library that the descriptor builders call. The library is
  not part of the file: it is an argument of every function that calls it. A
  \<^verbatim>\<open>cudnnCreate...Descriptor\<close> reports a status. A
  \<^verbatim>\<open>cudnnSet...\<close> reports a status and leaves the descriptor in a state, given here by the
  data that would be read back from it. An entry point that takes an array and its length
  \<open>n\<close> reads the first \<open>n\<close> slots, so it is handed that prefix.
\<close>

record cudnn =
  cudnnCreateTensorDescriptor :: cudnnStatus_t
  cudnnSetTensorNdDescriptor ::
    "cudnnDataType_t \<Rightarrow> int \<Rightarrow> int32 list \<Rightarrow> int32 list \<Rightarrow> cudnnStatus_t \<times> TensorDescriptorData"
  cudnnSetTensor4dDescriptor ::
    "cudnnTensorFormat_t \<Rightarrow> cudnnDataType_t \<Rightarrow> int32 \<Rightarrow> int32 \<Rightarrow> int32 \<Rightarrow> int32 \<Rightarrow>
     cudnnStatus_t \<times> TensorDescriptorData"
  cudnnCreateFilterDescriptor :: cudnnStatus_t
  cudnnSetFilterNdDescriptor ::
    "cudnnDataType_t \<Rightarrow> cudnnTensorFormat_t \<Rightarrow> int \<Rightarrow> int32 list \<Rightarrow>
     cudnnStatus_t \<times> FilterDescriptorData"
  cudnnCreateConvolutionDescriptor :: cudnnStatus_t
  cudnnSetConvolutionNdDescriptor ::
    "int \<Rightarrow> int32 list \<Rightarrow> int32 list \<Rightarrow> int32 list \<Rightarrow> cudnnConvolutionMode_t \<Rightarrow>
     cudnnDataType_t \<Rightarrow> cudnnStatus_t \<times> ConvolutionDescriptorData"
  cudnnSetConvolutionGroupCount ::
    "ConvolutionDescriptorData \<Rightarrow> int32 \<Rightarrow> cudnnStatus_t \<times> ConvolutionDescriptorData"
  cudnnSetConvolutionMathType ::
    "ConvolutionDescriptorData \<Rightarrow> cudnnMathType_t \<Rightarrow> cudnnStatus_t \<times> ConvolutionDescriptorData"
  cudnnGetConvolution2dForwardOutputDim ::
    "ConvolutionDescriptorData \<Rightarrow> TensorDescriptorData \<Rightarrow> FilterDescriptorData \<Rightarrow>
     cudnnStatus_t \<times> int32 \<times> int32 \<times> int32 \<times> int32"

text \<open>
  Modelled from the spec: the macros \<^verbatim>\<open>CHECK_OK_STATUS\<close> and \<^verbatim>\<open>RETURN_IF_ERROR_STATUS\<close> are
  defined outside this file. \<^verbatim>\<open>CHECK_OK_STATUS(GetStatus(call))\<close> is a process-terminating
  check: it ends the process unless the call succeeded.
  \<^verbatim>\<open>RETURN_IF_ERROR_STATUS(GetStatus(call))\<close> leaves the enclosing function at once with the
  error as its result.
\<close>

definition CHECK_OK_STATUS :: "cudnnStatus_t \<Rightarrow> 'a outcome \<Rightarrow> 'a outcome" where
  "CHECK_OK_STATUS status continue =
     (if status = CUDNN_STATUS_SUCCESS then continue else Aborts (Status_not_ok status))"

definition RETURN_IF_ERROR_STATUS ::
  "cudnnStatus_t \<Rightarrow> (error + 'a) outcome \<Rightarrow> (error + 'a) outcome" where
  "RETURN_IF_ERROR_STATUS status continue =
     (if status = CUDNN_STATUS_SUCCESS then continue else Returns (Inl (CudnnError status)))"

subsection \<open>Configuration records\<close>

text \<open>
  Modelled from the spec: the configuration messages are generated from a protocol-buffer
  file that is not among the sources. A tensor configuration has an element kind,
  dimensions, optional strides and an optional format; a filter configuration an element
  kind, a format and dimensions; a convolution configuration paddings, strides,
  dilations, a mode, a compute kind, an optional group count and an optional math mode.
  The fields are those the builders read, under the names of their accessors. A \<^verbatim>\<open>oneof\<close>
  that may be unset is an option; the getter of an unset field returns the default, the
  enumeration's value 0.
\<close>

record proto_TensorDescriptor =
  t_data_type_oneof :: "cudnnDataType_t option"
  t_dimension :: "int32 list"
  t_stride :: "int32 list"
  t_format_oneof :: "cudnnTensorFormat_t option"

record proto_FilterDescriptor =
  f_data_type_oneof :: "cudnnDataType_t option"
  f_format_oneof :: "cudnnTensorFormat_t option"
  f_dimension :: "int32 list"

record proto_ConvolutionDescriptor =
  c_pad :: "int32 list"
  c_filter_stride :: "int32 list"
  c_dilation :: "int32 list"
  c_mode :: cudnnConvolutionMode_t
  c_compute_mode_oneof :: "cudnnDataType_t option"
  c_group_count :: int32
  c_math_type :: cudnnMathType_t

definition proto_data_type :: "cudnnDataType_t option \<Rightarrow> cudnnDataType_t" where
  "proto_data_type oneof = (case oneof of Some d \<Rightarrow> d | None \<Rightarrow> CUDNN_DATA_FLOAT)"

definition proto_format :: "cudnnTensorFormat_t option \<Rightarrow> cudnnTensorFormat_t" where
  "proto_format oneof = (case oneof of Some f \<Rightarrow> f | None \<Rightarrow> CUDNN_TENSOR_NCHW)"

subsection \<open>Tensor descriptors\<close>

text \<open>
  \<^verbatim>\<open>GetFullyPackedStrides\<close> fills \<^verbatim>\<open>result[rank - 1]\<close> down to \<^verbatim>\<open>result[0]\<close>, multiplying on
  \<^verbatim>\<open>int\<close>. The model returns the \<open>rank\<close> slots that the loop writes, each of which it
  overwrites; the other slots of the array are never initialised. The function does not
  compare the rank with the size of the array.
\<close>

function GetFullyPackedStrides_loop ::
  "int32 list \<Rightarrow> int \<Rightarrow> int32 \<Rightarrow> int32 list \<Rightarrow> int32 list" where
  "GetFullyPackedStrides_loop dims i stride result =
     (if 0 \<le> i
      then GetFullyPackedStrides_loop dims (i - 1) (stride * dims ! nat i) (result[nat i := stride])
      else result)"
  by pat_completeness auto
termination
  by (relation "measure (\<lambda>(dims, i, stride, result). nat (i + 1))") auto

declare GetFullyPackedStrides_loop.simps [simp del]

definition GetFullyPackedStrides :: "int32 list \<Rightarrow> int \<Rightarrow> int32 list" where
  "GetFullyPackedStrides dims rank =
     GetFullyPackedStrides_loop dims (rank - 1) 1 (replicate (nat rank) 0)"

definition CreateTensorDescriptor :: "cudnn \<Rightarrow> proto_TensorDescriptor \<Rightarrow> TensorDescriptor outcome" where
  "CreateTensorDescriptor lib proto =
     (if t_data_type_oneof proto = None then Aborts CHECK_data_type_set
      else if (t_stride proto = []) \<noteq> (t_format_oneof proto \<noteq> None)
        then Aborts CHECK_stride_xor_format
      else
        let rank = int (length (t_dimension proto));
            data_type = proto_data_type (t_data_type_oneof proto)
        in
        CHECK_OK_STATUS (cudnnCreateTensorDescriptor lib)
         (if t_stride proto \<noteq> [] then
            if rank \<noteq> int (length (t_stride proto)) then Aborts CHECK_rank_eq_stride_size
            else
              let (status, result) =
                    cudnnSetTensorNdDescriptor lib data_type rank (t_dimension proto) (t_stride proto)
              in CHECK_OK_STATUS status (Returns result)
          else if rank = 4 then
            let (status, result) =
                  cudnnSetTensor4dDescriptor lib (proto_format (t_format_oneof proto)) data_type
                    (t_dimension proto ! 0) (t_dimension proto ! 1)
                    (t_dimension proto ! 2) (t_dimension proto ! 3)
            in CHECK_OK_STATUS status (Returns result)
          else if proto_format (t_format_oneof proto) \<noteq> CUDNN_TENSOR_NCHW
            then Aborts CHECK_format_NCHW
          else
            let strides = GetFullyPackedStrides (t_dimension proto) rank;
                (status, result) =
                  cudnnSetTensorNdDescriptor lib data_type rank (t_dimension proto) strides
            in CHECK_OK_STATUS status (Returns result)))"

subsection \<open>Filter and convolution descriptors\<close>

definition CreateFilterDescriptor :: "cudnn \<Rightarrow> proto_FilterDescriptor \<Rightarrow> FilterDescriptor outcome" where
  "CreateFilterDescriptor lib proto =
     (if f_data_type_oneof proto = None then Aborts CHECK_data_type_set
      else if f_format_oneof proto = None then Aborts CHECK_format_set
      else
        let rank = int (length (f_dimension proto)) in
        CHECK_OK_STATUS (cudnnCreateFilterDescriptor lib)
         (let (status, result) =
                cudnnSetFilterNdDescriptor lib (proto_data_type (f_data_type_oneof proto))
                  (proto_format (f_format_oneof proto)) rank (f_dimension proto)
          in CHECK_OK_STATUS status (Returns result)))"

text \<open>\<^verbatim>\<open>while (proto.pad_size() < rank) proto.add_pad(0);\<close> and its two siblings.\<close>

function add_until :: "int \<Rightarrow> int32 \<Rightarrow> int32 list \<Rightarrow> int32 list" where
  "add_until rank v xs = (if int (length xs) < rank then add_until rank v (xs @ [v]) else xs)"
  by pat_completeness auto
termination
  by (relation "measure (\<lambda>(rank, v, xs). nat (rank - int (length xs)))") auto

declare add_until.simps [simp del]

definition CreateConvolutionDescriptor ::
  "cudnn \<Rightarrow> proto_ConvolutionDescriptor \<Rightarrow> ConvolutionDescriptor outcome" where
  "CreateConvolutionDescriptor lib proto =
     (if c_compute_mode_oneof proto = None then Aborts CHECK_compute_mode_set
      else
        let rank = max (int (length (c_pad proto)))
                     (max (int (length (c_filter_stride proto))) (int (length (c_dilation proto))));
            pad = add_until rank 0 (c_pad proto);
            filter_stride = add_until rank 1 (c_filter_stride proto);
            dilation = add_until rank 1 (c_dilation proto)
        in
        CHECK_OK_STATUS (cudnnCreateConvolutionDescriptor lib)
         (let (status, result) =
                cudnnSetConvolutionNdDescriptor lib rank pad filter_stride dilation (c_mode proto)
                  (proto_data_type (c_compute_mode_oneof proto))
          in CHECK_OK_STATUS status
              (let (group_status, grouped) =
                     (if 0 < sint (c_group_count proto)
                      then cudnnSetConvolutionGroupCount lib result (c_group_count proto)
                      else (CUDNN_STATUS_SUCCESS, result))
               in CHECK_OK_STATUS group_status
                   (let (math_status, final) =
                          cudnnSetConvolutionMathType lib grouped (c_math_type proto)
                    in CHECK_OK_STATUS math_status (Returns final)))))"

subsection \<open>The output descriptor\<close>

text \<open>
  \<^verbatim>\<open>FilterDescriptorData data{}\<close> and \<^verbatim>\<open>ConvolutionDescriptorData data{}\<close> are zero-initialised
  before the library fills them in: a slot the library left alone reads as 0.
\<close>

definition slot :: "int32 list \<Rightarrow> nat \<Rightarrow> int32" where
  "slot xs i = (if i < length xs then xs ! i else 0)"

definition all_ones :: "ConvolutionDescriptorData \<Rightarrow> int32 list \<Rightarrow> bool" where
  "all_ones conv_data param = list_all (\<lambda>i. slot param i = 1) [0..<nat (conv_rank conv_data)]"

text \<open>
  The loop that fills \<^verbatim>\<open>output_dimensions[2]\<close> up to \<^verbatim>\<open>output_dimensions[rank - 1]\<close>, on \<^verbatim>\<open>int\<close>.
\<close>

function output_dimensions_loop ::
  "TensorDescriptorData \<Rightarrow> FilterDescriptorData \<Rightarrow> ConvolutionDescriptorData \<Rightarrow>
   int \<Rightarrow> int32 list \<Rightarrow> int32 list" where
  "output_dimensions_loop input_data filter_data conv_data i output_dimensions =
     (if i < tensor_rank input_data
      then output_dimensions_loop input_data filter_data conv_data (i + 1)
             (output_dimensions[nat i :=
                tensor_dimensions input_data ! nat i + 2 * slot (conv_pad conv_data) (nat (i - 2))
                  - slot (filter_dimensions filter_data) (nat i) + 1])
      else output_dimensions)"
  by pat_completeness auto
termination
  by (relation "measure (\<lambda>(input_data, filter_data, conv_data, i, output_dimensions).
        nat (tensor_rank input_data - i))") auto

declare output_dimensions_loop.simps [simp del]

text \<open>
  \<^verbatim>\<open>CreateOutputDescriptor(format, input, filter, convolution)\<close>. The first two slots of
  the array \<^verbatim>\<open>output_dimensions\<close> are initialised from the input and the filter and the
  others to 0. The model keeps the slots below the rank (and the first two), which are
  those that the function writes and that the library reads.
\<close>

definition CreateOutputDescriptor ::
  "cudnn \<Rightarrow> cudnnTensorFormat_t \<Rightarrow> TensorDescriptor \<Rightarrow> FilterDescriptor \<Rightarrow>
   ConvolutionDescriptor \<Rightarrow> (error + TensorDescriptor) outcome" where
  "CreateOutputDescriptor lib format input filter_desc convolution =
     (let input_data = input in
      CHECK_OK_STATUS (cudnnCreateTensorDescriptor lib)
       (if tensor_rank input_data = 4 then
          let (dim_status, n, c, h, w) =
                cudnnGetConvolution2dForwardOutputDim lib convolution input filter_desc
          in RETURN_IF_ERROR_STATUS dim_status
              (let (status, output) =
                     cudnnSetTensor4dDescriptor lib format (GetTensorDataType input) n c h w
               in RETURN_IF_ERROR_STATUS status (Returns (Inr output)))
        else if format \<noteq> CUDNN_TENSOR_NCHW then Returns (Inl OnlyNCHWForNon4D)
        else
          let filter_data = filter_desc; conv_data = convolution in
          if filter_format filter_data \<noteq> CUDNN_TENSOR_NCHW then Aborts CHECK_filter_format_NCHW
          else if \<not> all_ones conv_data (conv_dilation conv_data) then Aborts CHECK_dilation_all_ones
          else if \<not> all_ones conv_data (conv_stride conv_data) then Aborts CHECK_stride_all_ones
          else if group_count conv_data \<noteq> 1 then Aborts CHECK_group_count_one
          else
            let output_dimensions =
                  output_dimensions_loop input_data filter_data conv_data 2
                    ([tensor_dimensions input_data ! 0, slot (filter_dimensions filter_data) 0]
                       @ replicate (nat (tensor_rank input_data) - 2) 0);
                output_strides = GetFullyPackedStrides output_dimensions (tensor_rank input_data);
                (status, output) =
                  cudnnSetTensorNdDescriptor lib (tensor_data_type input_data)
                    (tensor_rank input_data)
                    (take (nat (tensor_rank input_data)) output_dimensions) output_strides
            in RETURN_IF_ERROR_STATUS status (Returns (Inr output))))"

text \<open>
  The part of \<^verbatim>\<open>proto::ConvolutionConfig\<close> that the second overload reads: the input tensor's
  configuration and the optional explicit output tensor.
\<close>

record proto_ConvolutionConfig =
  cfg_input :: proto_TensorDescriptor
  cfg_output :: "proto_TensorDescriptor option"

definition CreateOutputDescriptor_config ::
  "cudnn \<Rightarrow> proto_ConvolutionConfig \<Rightarrow> TensorDescriptor \<Rightarrow> FilterDescriptor \<Rightarrow>
   ConvolutionDescriptor \<Rightarrow> (error + TensorDescriptor) outcome" where
  "CreateOutputDescriptor_config lib proto input filter_desc convolution =
     (case cfg_output proto of
        Some output_proto \<Rightarrow>
          (case CreateTensorDescriptor lib output_proto of
             Returns output \<Rightarrow> Returns (Inr output)
           | Aborts f \<Rightarrow> Aborts f)
      | None \<Rightarrow>
          CreateOutputDescriptor lib (proto_format (t_format_oneof (cfg_input proto)))
            input filter_desc convolution)"

subsection \<open>Convolution algorithms\<close>

text \<open>
  \<^verbatim>\<open>ConvolutionAlgo\<close> is a variant over the library's three algorithm enumerations, one per
  direction; an enumerator is its numeric value. A \<^verbatim>\<open>proto::ConvolutionDirection\<close> other
  than the three that the file names is kept with its numeric value.
\<close>

datatype ConvolutionAlgo = FwdAlgo int | BwdDataAlgo int | BwdFilterAlgo int

datatype ConvolutionDirection =
    CONVOLUTION_FWD | CONVOLUTION_BWD_DATA | CONVOLUTION_BWD_FILTER
  | CONVOLUTION_DIRECTION_other int

text \<open>
  What the file reads of a \<^verbatim>\<open>cudnnConvolution...AlgoPerf_t\<close>: the algorithm and its status.
\<close>

record AlgoPerf =
  perf_algo :: int
  perf_status :: cudnnStatus_t

text \<open>
  The library's convolution entry points and the \<^verbatim>\<open>..._ALGO_COUNT\<close> enumerators of cudnn.h.
  Device memory is of an arbitrary type \<open>'m\<close>. A workspace-size query reports a status and
  the size it wrote; a \<^verbatim>\<open>cudnnFind...AlgorithmEx\<close> takes the number of results requested,
  the workspace and its size, and reports a status, the number of results returned and
  the first result. The arguments stand in the order of the C call.
\<close>

record 'm cudnn_algorithms =
  CUDNN_CONVOLUTION_FWD_ALGO_COUNT :: int
  CUDNN_CONVOLUTION_BWD_DATA_ALGO_COUNT :: int
  CUDNN_CONVOLUTION_BWD_FILTER_ALGO_COUNT :: int
  cudnnGetConvolutionForwardWorkspaceSize ::
    "TensorDescriptor \<Rightarrow> FilterDescriptor \<Rightarrow> ConvolutionDescriptor \<Rightarrow> TensorDescriptor \<Rightarrow>
     int \<Rightarrow> cudnnStatus_t \<times> size_t"
  cudnnGetConvolutionBackwardDataWorkspaceSize ::
    "FilterDescriptor \<Rightarrow> TensorDescriptor \<Rightarrow> ConvolutionDescriptor \<Rightarrow> TensorDescriptor \<Rightarrow>
     int \<Rightarrow> cudnnStatus_t \<times> size_t"
  cudnnGetConvolutionBackwardFilterWorkspaceSize ::
    "TensorDescriptor \<Rightarrow> TensorDescriptor \<Rightarrow> ConvolutionDescriptor \<Rightarrow> FilterDescriptor \<Rightarrow>
     int \<Rightarrow> cudnnStatus_t \<times> size_t"
  cudnnFindConvolutionForwardAlgorithmEx ::
    "TensorDescriptor \<Rightarrow> 'm \<Rightarrow> FilterDescriptor \<Rightarrow> 'm \<Rightarrow> ConvolutionDescriptor \<Rightarrow>
     TensorDescriptor \<Rightarrow> 'm \<Rightarrow> int \<Rightarrow> 'm \<Rightarrow> size_t \<Rightarrow> cudnnStatus_t \<times> int \<times> AlgoPerf"
  cudnnFindConvolutionBackwardDataAlgorithmEx ::
    "FilterDescriptor \<Rightarrow> 'm \<Rightarrow> TensorDescriptor \<Rightarrow> 'm \<Rightarrow> ConvolutionDescriptor \<Rightarrow>
     TensorDescriptor \<Rightarrow> 'm \<Rightarrow> int \<Rightarrow> 'm \<Rightarrow> size_t \<Rightarrow> cudnnStatus_t \<times> int \<times> AlgoPerf"
  cudnnFindConvolutionBackwardFilterAlgorithmEx ::
    "TensorDescriptor \<Rightarrow> 'm \<Rightarrow> TensorDescriptor \<Rightarrow> 'm \<Rightarrow> ConvolutionDescriptor \<Rightarrow>
     FilterDescriptor \<Rightarrow> 'm \<Rightarrow> int \<Rightarrow> 'm \<Rightarrow> size_t \<Rightarrow> cudnnStatus_t \<times> int \<times> AlgoPerf"

text \<open>
  \<^verbatim>\<open>GetWorkspaceSize\<close>: the visitor picks the query of the algorithm's direction and orders
  the descriptors as that query takes them.
\<close>

definition GetWorkspaceSize ::
  "'m cudnn_algorithms \<Rightarrow> TensorDescriptor \<Rightarrow> FilterDescriptor \<Rightarrow> ConvolutionDescriptor \<Rightarrow>
   TensorDescriptor \<Rightarrow> ConvolutionAlgo \<Rightarrow> error + size_t" where
  "GetWorkspaceSize lib input filter_desc convolution output algo =
     (let (status, workspace_size) =
            (case algo of
               FwdAlgo a \<Rightarrow>
                 cudnnGetConvolutionForwardWorkspaceSize lib input filter_desc convolution output a
             | BwdDataAlgo a \<Rightarrow>
                 cudnnGetConvolutionBackwardDataWorkspaceSize lib filter_desc output convolution input a
             | BwdFilterAlgo a \<Rightarrow>
                 cudnnGetConvolutionBackwardFilterWorkspaceSize lib input output convolution filter_desc a)
      in if status = CUDNN_STATUS_SUCCESS then Inr workspace_size else Inl (CudnnError status))"

text \<open>
  \<^verbatim>\<open>GetSupportedConvolutionAlgosImpl<T>\<close>; \<open>T\<close> is given by the constructor that
  \<^verbatim>\<open>static_cast<T>(i)\<close> lands in. The loop returns the vector \<^verbatim>\<open>result\<close>; next to it the model
  keeps \<open>queried\<close>, the algorithms that were passed to \<^verbatim>\<open>GetWorkspaceSize\<close>, in the order of
  the calls.
\<close>

function GetSupportedConvolutionAlgosImpl_loop ::
  "'m cudnn_algorithms \<Rightarrow> (int \<Rightarrow> ConvolutionAlgo) \<Rightarrow> TensorDescriptor \<Rightarrow> FilterDescriptor \<Rightarrow>
   ConvolutionDescriptor \<Rightarrow> TensorDescriptor \<Rightarrow> size_t \<Rightarrow> int \<Rightarrow> int \<Rightarrow>
   ConvolutionAlgo list \<times> ConvolutionAlgo list \<Rightarrow> ConvolutionAlgo list \<times> ConvolutionAlgo list" where
  "GetSupportedConvolutionAlgosImpl_loop lib T input filter_desc convolution output
       workspace_limit num_elements i (result, queried) =
     (if i < num_elements then
        let algo = T i;
            size_or = GetWorkspaceSize lib input filter_desc convolution output algo
        in GetSupportedConvolutionAlgosImpl_loop lib T input filter_desc convolution output
             workspace_limit num_elements (i + 1)
             (case size_or of
                Inr workspace_size \<Rightarrow>
                  if workspace_size \<le> workspace_limit then result @ [algo] else result
              | Inl err \<Rightarrow> result,
              queried @ [algo])
      else (result, queried))"
  by pat_completeness auto
termination
  by (relation "measure (\<lambda>(lib, T, input, filter_desc, convolution, output, workspace_limit,
        num_elements, i, acc). nat (num_elements - i))") auto

declare GetSupportedConvolutionAlgosImpl_loop.simps [simp del]

definition GetSupportedConvolutionAlgosImpl ::
  "'m cudnn_algorithms \<Rightarrow> (int \<Rightarrow> ConvolutionAlgo) \<Rightarrow> TensorDescriptor \<Rightarrow> FilterDescriptor \<Rightarrow>
   ConvolutionDescriptor \<Rightarrow> TensorDescriptor \<Rightarrow> size_t \<Rightarrow> int \<Rightarrow>
   ConvolutionAlgo list \<times> ConvolutionAlgo list" where
  "GetSupportedConvolutionAlgosImpl lib T input filter_desc convolution output
       workspace_limit num_elements =
     GetSupportedConvolutionAlgosImpl_loop lib T input filter_desc convolution output
       workspace_limit num_elements 0 ([], [])"

definition GetSupportedConvolutionAlgos ::
  "'m cudnn_algorithms \<Rightarrow> ConvolutionDirection \<Rightarrow> TensorDescriptor \<Rightarrow> FilterDescriptor \<Rightarrow>
   ConvolutionDescriptor \<Rightarrow> TensorDescriptor \<Rightarrow> size_t \<Rightarrow>
   (ConvolutionAlgo list \<times> ConvolutionAlgo list) outcome" where
  "GetSupportedConvolutionAlgos lib direction input filter_desc convolution output workspace_limit =
     (case direction of
        CONVOLUTION_FWD \<Rightarrow>
          Returns (GetSupportedConvolutionAlgosImpl lib FwdAlgo input filter_desc convolution output
                     workspace_limit (CUDNN_CONVOLUTION_FWD_ALGO_COUNT lib))
      | CONVOLUTION_BWD_DATA \<Rightarrow>
          Returns (GetSupportedConvolutionAlgosImpl lib BwdDataAlgo input filter_desc convolution output
                     workspace_limit (CUDNN_CONVOLUTION_BWD_DATA_ALGO_COUNT lib))
      | CONVOLUTION_BWD_FILTER \<Rightarrow>
          Returns (GetSupportedConvolutionAlgosImpl lib BwdFilterAlgo input filter_desc convolution output
                     workspace_limit (CUDNN_CONVOLUTION_BWD_FILTER_ALGO_COUNT lib))
      | CONVOLUTION_DIRECTION_other d \<Rightarrow> Aborts (FATAL_unsupported_direction d))"

text \<open>\<^verbatim>\<open>ToConvolutionAlgo<T>\<close>, with \<open>T\<close> given by the constructor as above.\<close>

definition ToConvolutionAlgo :: "(int \<Rightarrow> ConvolutionAlgo) \<Rightarrow> AlgoPerf \<Rightarrow> int \<Rightarrow> error + ConvolutionAlgo" where
  "ToConvolutionAlgo T algo_perf num_algorithms =
     (if num_algorithms = 0 \<or> perf_status algo_perf \<noteq> CUDNN_STATUS_SUCCESS
      then Inl NoSupportedAlgorithm
      else Inr (T (perf_algo algo_perf)))"

text \<open>
  \<^verbatim>\<open>FindConvolutionAlgo\<close>. \<^verbatim>\<open>AllocateDeviceMemory\<close> belongs to cuda_util and is an argument: it
  returns device memory of the size asked for, or an error.
\<close>

definition FindConvolutionAlgo ::
  "(size_t \<Rightarrow> error + 'm) \<Rightarrow> 'm cudnn_algorithms \<Rightarrow> ConvolutionDirection \<Rightarrow>
   TensorDescriptor \<Rightarrow> 'm \<Rightarrow> FilterDescriptor \<Rightarrow> 'm \<Rightarrow> ConvolutionDescriptor \<Rightarrow>
   TensorDescriptor \<Rightarrow> 'm \<Rightarrow> size_t \<Rightarrow> error + ConvolutionAlgo" where
  "FindConvolutionAlgo AllocateDeviceMemory lib direction input_desc input_data filter_desc
       filter_data convolution_desc output_desc output_data workspace_limit =
     (case AllocateDeviceMemory workspace_limit of
        Inl err \<Rightarrow> Inl err
      | Inr workspace \<Rightarrow>
          (case direction of
             CONVOLUTION_FWD \<Rightarrow>
               let (status, num_algorithms, algo_perf) =
                     cudnnFindConvolutionForwardAlgorithmEx lib input_desc input_data filter_desc
                       filter_data convolution_desc output_desc output_data 1 workspace workspace_limit
               in if status \<noteq> CUDNN_STATUS_SUCCESS then Inl (CudnnError status)
                  else ToConvolutionAlgo FwdAlgo algo_perf num_algorithms
           | CONVOLUTION_BWD_DATA \<Rightarrow>
               let (status, num_algorithms, algo_perf) =
                     cudnnFindConvolutionBackwardDataAlgorithmEx lib filter_desc filter_data
                       output_desc output_data convolution_desc input_desc input_data 1 workspace
                       workspace_limit
               in if status \<noteq> CUDNN_STATUS_SUCCESS then Inl (CudnnError status)
                  else ToConvolutionAlgo BwdDataAlgo algo_perf num_algorithms
           | CONVOLUTION_BWD_FILTER \<Rightarrow>
               let (status, num_algorithms, algo_perf) =
                     cudnnFindConvolutionBackwardFilterAlgorithmEx lib input_desc input_data
                       output_desc output_data convolution_desc filter_desc filter_data 1 workspace
                       workspace_limit
               in if status \<noteq> CUDNN_STATUS_SUCCESS then Inl (CudnnError status)
                  else ToConvolutionAlgo BwdFilterAlgo algo_perf num_algorithms
           | CONVOLUTION_DIRECTION_other d \<Rightarrow> Inl (UnsupportedDirection d)))"

text \<open>The numeric value of the enumerator that a \<^verbatim>\<open>ConvolutionAlgo\<close> holds.\<close>

fun algo_id :: "ConvolutionAlgo \<Rightarrow> int" where
  "algo_id (FwdAlgo a) = a"
| "algo_id (BwdDataAlgo a) = a"
| "algo_id (BwdFilterAlgo a) = a"

subsection \<open>Running a convolution\<close>

text \<open>
  \<^verbatim>\<open>union ScalingFactor\<close> has a \<^verbatim>\<open>float\<close> and a \<^verbatim>\<open>double\<close> member and its constructor writes one
  of them; the value records which. Floating-point numbers are not interpreted:
  \<open>'d\<close> stands for \<^verbatim>\<open>double\<close>, \<open>'f\<close> for \<^verbatim>\<open>float\<close>, and \<open>cast\<close> for \<^verbatim>\<open>static_cast<float>\<close>.
\<close>

datatype ('f, 'd) ScalingFactor = float_value 'f | double_value 'd

definition ScalingFactor_data_type ::
  "('d \<Rightarrow> 'f) \<Rightarrow> 'd \<Rightarrow> cudnnDataType_t \<Rightarrow> ('f, 'd) ScalingFactor" where
  "ScalingFactor_data_type cast v data_type =
     (if data_type = CUDNN_DATA_DOUBLE then double_value v else float_value (cast v))"

definition ScalingFactor_tensor ::
  "('d \<Rightarrow> 'f) \<Rightarrow> 'd \<Rightarrow> TensorDescriptor \<Rightarrow> ('f, 'd) ScalingFactor" where
  "ScalingFactor_tensor cast v descriptor =
     ScalingFactor_data_type cast v (tensor_data_type descriptor)"

definition ScalingFactor_filter ::
  "('d \<Rightarrow> 'f) \<Rightarrow> 'd \<Rightarrow> FilterDescriptor \<Rightarrow> ('f, 'd) ScalingFactor" where
  "ScalingFactor_filter cast v descriptor =
     ScalingFactor_data_type cast v (filter_data_type descriptor)"

text \<open>
  The three entry points that run a convolution, with the arguments in the order of the C
  call. Each reports a status; what it writes to device memory is not modelled.
\<close>

record ('m, 'f, 'd) cudnn_convolution =
  cudnnConvolutionForward ::
    "('f, 'd) ScalingFactor \<Rightarrow> TensorDescriptor \<Rightarrow> 'm \<Rightarrow> FilterDescriptor \<Rightarrow> 'm \<Rightarrow>
     ConvolutionDescriptor \<Rightarrow> int \<Rightarrow> 'm \<Rightarrow> size_t \<Rightarrow> ('f, 'd) ScalingFactor \<Rightarrow>
     TensorDescriptor \<Rightarrow> 'm \<Rightarrow> cudnnStatus_t"
  cudnnConvolutionBackwardData ::
    "('f, 'd) ScalingFactor \<Rightarrow> FilterDescriptor \<Rightarrow> 'm \<Rightarrow> TensorDescriptor \<Rightarrow> 'm \<Rightarrow>
     ConvolutionDescriptor \<Rightarrow> int \<Rightarrow> 'm \<Rightarrow> size_t \<Rightarrow> ('f, 'd) ScalingFactor \<Rightarrow>
     TensorDescriptor \<Rightarrow> 'm \<Rightarrow> cudnnStatus_t"
  cudnnConvolutionBackwardFilter ::
    "('f, 'd) ScalingFactor \<Rightarrow> TensorDescriptor \<Rightarrow> 'm \<Rightarrow> TensorDescriptor \<Rightarrow> 'm \<Rightarrow>
     ConvolutionDescriptor \<Rightarrow> int \<Rightarrow> 'm \<Rightarrow> size_t \<Rightarrow> ('f, 'd) ScalingFactor \<Rightarrow>
     FilterDescriptor \<Rightarrow> 'm \<Rightarrow> cudnnStatus_t"

definition RunConvolution ::
  "('m, 'f, 'd) cudnn_convolution \<Rightarrow> ('d \<Rightarrow> 'f) \<Rightarrow> ConvolutionAlgo \<Rightarrow> 'd \<Rightarrow> 'd \<Rightarrow>
   TensorDescriptor \<Rightarrow> 'm \<Rightarrow> FilterDescriptor \<Rightarrow> 'm \<Rightarrow> ConvolutionDescriptor \<Rightarrow>
   TensorDescriptor \<Rightarrow> 'm \<Rightarrow> 'm \<Rightarrow> size_t \<Rightarrow> Status" where
  "RunConvolution lib cast algo alpha beta input_desc input_data filter_desc filter_data
       convolution_desc output_desc output_data workspace workspace_size =
     GetStatus
      (case algo of
         FwdAlgo a \<Rightarrow>
           let alpha_scale = ScalingFactor_tensor cast alpha output_desc;
               beta_scale = ScalingFactor_tensor cast beta output_desc
           in cudnnConvolutionForward lib alpha_scale input_desc input_data filter_desc
                filter_data convolution_desc a workspace workspace_size beta_scale
                output_desc output_data
       | BwdDataAlgo a \<Rightarrow>
           let alpha_scale = ScalingFactor_tensor cast alpha input_desc;
               beta_scale = ScalingFactor_tensor cast beta input_desc
           in cudnnConvolutionBackwardData lib alpha_scale filter_desc filter_data output_desc
                output_data convolution_desc a workspace workspace_size beta_scale
                input_desc input_data
       | BwdFilterAlgo a \<Rightarrow>
           let alpha_scale = ScalingFactor_filter cast alpha filter_desc;
               beta_scale = ScalingFactor_filter cast beta filter_desc
           in cudnnConvolutionBackwardFilter lib alpha_scale input_desc input_data output_desc
                output_data convolution_desc a workspace workspace_size beta_scale
                filter_desc filter_data)"

subsection \<open>The layouts and shapes that the specification names\<close>

text \<open>
  The specification's packed-stride law, written as a function of the dimensions: the
  stride of axis \<open>i\<close> is the product of the dimensions of the axes after \<open>i\<close>, on \<^verbatim>\<open>int\<close>.
\<close>

definition packed_strides :: "int32 list \<Rightarrow> int32 list" where
  "packed_strides dims = map (\<lambda>i. prod_list (drop (Suc i) dims)) [0..<length dims]"

text \<open>
  The specification's output shape for the packed path: axis 0 is the input's batch
  dimension, axis 1 the filter's first dimension, and every later axis is
  \<open>input + 2 * pad - filter + 1\<close>, the padding counted from the first spatial axis.
\<close>

definition packed_output_dimensions ::
  "TensorDescriptorData \<Rightarrow> FilterDescriptorData \<Rightarrow> ConvolutionDescriptorData \<Rightarrow> int32 list" where
  "packed_output_dimensions input_data filter_data conv_data =
     map (\<lambda>i. if i = 0 then tensor_dimensions input_data ! 0
              else if i = 1 then slot (filter_dimensions filter_data) 0
              else tensor_dimensions input_data ! i + 2 * slot (conv_pad conv_data) (i - 2)
                     - slot (filter_dimensions filter_data) i + 1)
       [0..<nat (tensor_rank input_data)]"

subsection \<open>Sample instances\<close>

text \<open>
  Concrete arguments on which the definitions are evaluated below: a small convolution
  (a 1x1x4x4 input, a 1x1x3x3 filter, no padding, unit strides and dilations) and instances
  of the library and of the allocator. In \<open>sample_algorithms\<close> every workspace query
  succeeds with a size of 100 bytes times the algorithm's number, except that forward
  algorithm 3 is not supported; the forward search returns algorithm 1, the backward-data
  search fails, and the backward-filter search returns one result whose status is an
  error. \<open>sample_allocator\<close> hands out up to 4096 bytes.
\<close>

definition sample_input :: TensorDescriptor where
  "sample_input = \<lparr>tensor_data_type = CUDNN_DATA_FLOAT, tensor_rank = 4,
     tensor_dimensions = [1, 1, 4, 4], tensor_strides = [16, 16, 4, 1]\<rparr>"

definition sample_filter :: FilterDescriptor where
  "sample_filter = \<lparr>filter_data_type = CUDNN_DATA_FLOAT, filter_format = CUDNN_TENSOR_NCHW,
     filter_rank = 4, filter_dimensions = [1, 1, 3, 3]\<rparr>"

definition sample_convolution :: ConvolutionDescriptor where
  "sample_convolution = \<lparr>conv_rank = 2, conv_pad = [0, 0], conv_stride = [1, 1],
     conv_dilation = [1, 1], convolution_mode = CUDNN_CONVOLUTION,
     compute_type = CUDNN_DATA_FLOAT, math_type = CUDNN_DEFAULT_MATH, group_count = 1\<rparr>"

definition sample_output :: TensorDescriptor where
  "sample_output = \<lparr>tensor_data_type = CUDNN_DATA_FLOAT, tensor_rank = 4,
     tensor_dimensions = [1, 1, 2, 2], tensor_strides = [4, 4, 2, 1]\<rparr>"

text \<open>
  The closed form that the cuDNN documentation gives for
  \<^verbatim>\<open>cudnnGetConvolution2dForwardOutputDim\<close>: the batch size of the input, the number of
  output feature maps of the filter, and for each of the two spatial axes
  \<^verbatim>\<open>1 + (inputDim + 2*pad - (((filterDim - 1) * dilation) + 1)) / convolutionStride\<close>, with
  the division of C on \<^verbatim>\<open>int\<close>.
\<close>

definition int_divide :: "int32 \<Rightarrow> int32 \<Rightarrow> int32" where
  "int_divide a b = word_of_int (sint a sdiv sint b)"

definition documented_output_dim :: "int32 \<Rightarrow> int32 \<Rightarrow> int32 \<Rightarrow> int32 \<Rightarrow> int32 \<Rightarrow> int32" where
  "documented_output_dim inputDim pad filterDim dilation convolutionStride =
     1 + int_divide (inputDim + 2 * pad - (((filterDim - 1) * dilation) + 1)) convolutionStride"

definition documented_2d_output_dim ::
  "ConvolutionDescriptorData \<Rightarrow> TensorDescriptorData \<Rightarrow> FilterDescriptorData \<Rightarrow>
   cudnnStatus_t \<times> int32 \<times> int32 \<times> int32 \<times> int32" where
  "documented_2d_output_dim conv input_data filter_data =
     (CUDNN_STATUS_SUCCESS,
      tensor_dimensions input_data ! 0,
      slot (filter_dimensions filter_data) 0,
      documented_output_dim (tensor_dimensions input_data ! 2) (slot (conv_pad conv) 0)
        (slot (filter_dimensions filter_data) 2) (slot (conv_dilation conv) 0)
        (slot (conv_stride conv) 0),
      documented_output_dim (tensor_dimensions input_data ! 3) (slot (conv_pad conv) 1)
        (slot (filter_dimensions filter_data) 3) (slot (conv_dilation conv) 1)
        (slot (conv_stride conv) 1))"

text \<open>
  \<open>sample_cudnn\<close>: an instance of the library in which every call succeeds, the
  \<^verbatim>\<open>Nd\<close> setters store the arguments they are given, the 4-d tensor setter lays the tensor
  out by its format as the cuDNN documentation describes (\<^verbatim>\<open>NCHW\<close> fully packed; \<^verbatim>\<open>NHWC\<close>
  with the channel axis innermost; the vectorised format is refused), and the output
  shape is the documented closed form.
\<close>

definition sample_cudnn :: cudnn where
  "sample_cudnn = \<lparr>
     cudnnCreateTensorDescriptor = CUDNN_STATUS_SUCCESS,
     cudnnSetTensorNdDescriptor = (\<lambda>data_type nbDims dimA strideA.
       (CUDNN_STATUS_SUCCESS,
        \<lparr>tensor_data_type = data_type, tensor_rank = nbDims, tensor_dimensions = dimA,
         tensor_strides = strideA\<rparr>)),
     cudnnSetTensor4dDescriptor = (\<lambda>format data_type n c h w.
       (case format of
          CUDNN_TENSOR_NCHW \<Rightarrow>
            (CUDNN_STATUS_SUCCESS,
             \<lparr>tensor_data_type = data_type, tensor_rank = 4, tensor_dimensions = [n, c, h, w],
              tensor_strides = [c * h * w, h * w, w, 1]\<rparr>)
        | CUDNN_TENSOR_NHWC \<Rightarrow>
            (CUDNN_STATUS_SUCCESS,
             \<lparr>tensor_data_type = data_type, tensor_rank = 4, tensor_dimensions = [n, c, h, w],
              tensor_strides = [h * w * c, 1, w * c, c]\<rparr>)
        | CUDNN_TENSOR_NCHW_VECT_C \<Rightarrow>
            (CUDNN_STATUS_ERROR 9,
             \<lparr>tensor_data_type = data_type, tensor_rank = 0, tensor_dimensions = [],
              tensor_strides = []\<rparr>))),
     cudnnCreateFilterDescriptor = CUDNN_STATUS_SUCCESS,
     cudnnSetFilterNdDescriptor = (\<lambda>data_type format nbDims filterDimA.
       (CUDNN_STATUS_SUCCESS,
        \<lparr>filter_data_type = data_type, filter_format = format, filter_rank = nbDims,
         filter_dimensions = filterDimA\<rparr>)),
     cudnnCreateConvolutionDescriptor = CUDNN_STATUS_SUCCESS,
     cudnnSetConvolutionNdDescriptor = (\<lambda>arrayLength padA filterStrideA dilationA mode computeType.
       (CUDNN_STATUS_SUCCESS,
        \<lparr>conv_rank = arrayLength, conv_pad = padA, conv_stride = filterStrideA,
         conv_dilation = dilationA, convolution_mode = mode, compute_type = computeType,
         math_type = CUDNN_DEFAULT_MATH, group_count = 1\<rparr>)),
     cudnnSetConvolutionGroupCount = (\<lambda>conv groupCount.
       (CUDNN_STATUS_SUCCESS, conv\<lparr>group_count := groupCount\<rparr>)),
     cudnnSetConvolutionMathType = (\<lambda>conv mathType.
       (CUDNN_STATUS_SUCCESS, conv\<lparr>math_type := mathType\<rparr>)),
     cudnnGetConvolution2dForwardOutputDim = documented_2d_output_dim\<rparr>"

definition sample_algorithms :: "nat cudnn_algorithms" where
  "sample_algorithms = \<lparr>
     CUDNN_CONVOLUTION_FWD_ALGO_COUNT = 8,
     CUDNN_CONVOLUTION_BWD_DATA_ALGO_COUNT = 6,
     CUDNN_CONVOLUTION_BWD_FILTER_ALGO_COUNT = 7,
     cudnnGetConvolutionForwardWorkspaceSize = (\<lambda>x w conv y algo.
       if algo = 3 then (CUDNN_STATUS_ERROR 9, 0) else (CUDNN_STATUS_SUCCESS, word_of_int (100 * algo))),
     cudnnGetConvolutionBackwardDataWorkspaceSize = (\<lambda>w dy conv dx algo.
       (CUDNN_STATUS_SUCCESS, word_of_int (100 * algo))),
     cudnnGetConvolutionBackwardFilterWorkspaceSize = (\<lambda>x dy conv dw algo.
       (CUDNN_STATUS_SUCCESS, word_of_int (100 * algo))),
     cudnnFindConvolutionForwardAlgorithmEx = (\<lambda>x x_data w w_data conv y y_data requested workspace n.
       (CUDNN_STATUS_SUCCESS, 1, \<lparr>perf_algo = 1, perf_status = CUDNN_STATUS_SUCCESS\<rparr>)),
     cudnnFindConvolutionBackwardDataAlgorithmEx = (\<lambda>w w_data dy dy_data conv dx dx_data requested workspace n.
       (CUDNN_STATUS_ERROR 3, 0, \<lparr>perf_algo = 0, perf_status = CUDNN_STATUS_ERROR 3\<rparr>)),
     cudnnFindConvolutionBackwardFilterAlgorithmEx = (\<lambda>x x_data dy dy_data conv dw dw_data requested workspace n.
       (CUDNN_STATUS_SUCCESS, 1, \<lparr>perf_algo = 0, perf_status = CUDNN_STATUS_ERROR 9\<rparr>))\<rparr>"

text \<open>
  Configurations: the tensor, filter and convolution of the small convolution above, and a
  three-dimensional convolution (a rank-5 input of 1x1x4x5x6, two 1x3x3x3 filters, padding
  0, 1 and 2) for the path of \<^verbatim>\<open>CreateOutputDescriptor\<close> that is not 4-d.
\<close>

definition sample_tensor_proto :: proto_TensorDescriptor where
  "sample_tensor_proto = \<lparr>t_data_type_oneof = Some CUDNN_DATA_FLOAT, t_dimension = [1, 1, 4, 4],
     t_stride = [], t_format_oneof = Some CUDNN_TENSOR_NCHW\<rparr>"

definition sample_filter_proto :: proto_FilterDescriptor where
  "sample_filter_proto = \<lparr>f_data_type_oneof = Some CUDNN_DATA_FLOAT,
     f_format_oneof = Some CUDNN_TENSOR_NCHW, f_dimension = [1, 1, 3, 3]\<rparr>"

definition sample_convolution_proto :: proto_ConvolutionDescriptor where
  "sample_convolution_proto = \<lparr>c_pad = [0, 0], c_filter_stride = [], c_dilation = [1],
     c_mode = CUDNN_CONVOLUTION, c_compute_mode_oneof = Some CUDNN_DATA_FLOAT,
     c_group_count = 0, c_math_type = CUDNN_DEFAULT_MATH\<rparr>"




definition sample_allocator :: "size_t \<Rightarrow> error + nat" where
  "sample_allocator n = (if n \<le> 4096 then Inr 7 else Inl (CudaError 2))"

section \<open>Properties\<close>

subsection \<open>Memory budget\<close>

lemma GetAvailableDeviceMemoryBytes_uint:
  "uint (GetAvailableDeviceMemoryBytes l a) = max (uint l) (uint a) - uint a"
proof (cases "l \<le> a")
  case True
  then show ?thesis
    by (simp add: GetAvailableDeviceMemoryBytes_def max_def word_le_def)
next
  case False
  then have "a \<le> l" by simp
  then have "uint (l - a) = uint l - uint a"
    by (simp add: uint_minus_simple_alt)
  with False show ?thesis
    by (simp add: GetAvailableDeviceMemoryBytes_def max_def word_le_def)
qed

lemma uint_add_no_wrap:
  fixes a k :: size_t
  assumes "unat a + unat k < 2 ^ 64"
  shows "uint (a + k) = uint a + uint k"
proof -
  have "unat (a + k) = unat a + unat k"
    using assms by (simp add: unat_add_lem [symmetric])
  then show ?thesis
    by (metis of_nat_add uint_nat)
qed

text \<open>
  Claim C4. For every limit and every allocated byte count, the available bytes are
  \<open>max limit allocated - allocated\<close> as unbounded integers: the subtraction never wraps,
  so the result is never negative, and it is 0 when the limit is not above what is
  allocated. When
  \<open>k\<close> more bytes are allocated (the allocator's count grows to \<open>allocated + k\<close>, itself a
  \<^verbatim>\<open>size_t\<close>), the available bytes are the previous value minus \<open>k\<close>, clamped at zero.
\<close>

theorem GetAvailableDeviceMemoryBytes_budget:
  "uint (GetAvailableDeviceMemoryBytes l a) = max (uint l) (uint a) - uint a
   \<and> 0 \<le> uint (GetAvailableDeviceMemoryBytes l a)
   \<and> (l \<le> a \<longrightarrow> GetAvailableDeviceMemoryBytes l a = 0)
   \<and> (unat a + unat k < 2 ^ 64 \<longrightarrow>
        uint (GetAvailableDeviceMemoryBytes l (a + k)) =
          max 0 (uint (GetAvailableDeviceMemoryBytes l a) - uint k))"
proof -
  have arith: "max L (A + K) - (A + K) = max 0 (max L A - A - K)"
    if "0 \<le> K" for L A K :: int
    using that by (simp add: max_def)
  have "unat a + unat k < 2 ^ 64 \<Longrightarrow>
       uint (GetAvailableDeviceMemoryBytes l (a + k)) =
         max 0 (uint (GetAvailableDeviceMemoryBytes l a) - uint k)"
    by (simp only: GetAvailableDeviceMemoryBytes_uint uint_add_no_wrap arith [OF uint_ge_0])
  moreover have "l \<le> a \<Longrightarrow> GetAvailableDeviceMemoryBytes l a = 0"
    by (simp add: GetAvailableDeviceMemoryBytes_def max_def)
  ultimately show ?thesis
    by (simp add: GetAvailableDeviceMemoryBytes_uint)
qed

text \<open>
  A limit of 100 bytes with 30 allocated leaves 70; allocating 90 more leaves nothing, and
  so does a limit of 100 bytes with 120 allocated.
\<close>

theorem GetAvailableDeviceMemoryBytes_budget_witness:
  "uint (GetAvailableDeviceMemoryBytes 100 30) = 70
   \<and> unat (30 :: size_t) + unat (90 :: size_t) < 2 ^ 64
   \<and> uint (GetAvailableDeviceMemoryBytes 100 (30 + 90)) = 0
   \<and> max 0 (uint (GetAvailableDeviceMemoryBytes 100 30) - uint (90 :: size_t)) = 0
   \<and> (100 :: size_t) \<le> 120
   \<and> GetAvailableDeviceMemoryBytes 100 120 = 0"
  using GetAvailableDeviceMemoryBytes_budget [of 100 30 90]
    GetAvailableDeviceMemoryBytes_budget [of 100 120 0]
  by (simp add: GetAvailableDeviceMemoryBytes_def)

text \<open>
  Claim C5. \<^verbatim>\<open>GetWorkspaceLimit\<close> returns an error exactly when the configuration holds an
  explicit workspace limit strictly greater than the available bytes (the error carries
  both numbers); an explicit limit within the budget is returned as it is; with no
  explicit limit the available bytes are returned; and every value returned is at most
  the available bytes.
\<close>

theorem GetWorkspaceLimit_result:
  "(isl (GetWorkspaceLimit l a w) \<longleftrightarrow>
      (\<exists>cap. w = Some cap \<and> GetAvailableDeviceMemoryBytes l a < cap))
   \<and> (\<forall>cap. w = Some cap \<and> GetAvailableDeviceMemoryBytes l a < cap \<longrightarrow>
        GetWorkspaceLimit l a w =
          Inl (WorkspaceLimitTooLarge cap (GetAvailableDeviceMemoryBytes l a)))
   \<and> (\<forall>cap. w = Some cap \<and> cap \<le> GetAvailableDeviceMemoryBytes l a \<longrightarrow>
        GetWorkspaceLimit l a w = Inr cap)
   \<and> (w = None \<longrightarrow> GetWorkspaceLimit l a w = Inr (GetAvailableDeviceMemoryBytes l a))
   \<and> (\<forall>v. GetWorkspaceLimit l a w = Inr v \<longrightarrow> v \<le> GetAvailableDeviceMemoryBytes l a)"
  by (cases w) (auto simp: GetWorkspaceLimit_def Let_def)

text \<open>
  With 70 bytes available, an explicit limit of 50 is returned and one of 71 is an error.
\<close>

theorem GetWorkspaceLimit_result_witness:
  "GetWorkspaceLimit 100 30 (Some 50) = Inr 50
   \<and> GetWorkspaceLimit 100 30 (Some 71) = Inl (WorkspaceLimitTooLarge 71 70)
   \<and> GetWorkspaceLimit 100 30 None = Inr 70
   \<and> GetAvailableDeviceMemoryBytes 100 30 = 70"
  using GetWorkspaceLimit_result [of 100 30 "Some 50"]
    GetWorkspaceLimit_result [of 100 30 "Some 71"]
    GetWorkspaceLimit_result [of 100 30 None]
  by (simp add: GetAvailableDeviceMemoryBytes_def)

subsection \<open>Element counts\<close>

lemma GetTensorNumElements_loop_sum:
  "0 \<le> i \<Longrightarrow> GetTensorNumElements_loop data i result =
     result + (\<Sum>k = nat i..<nat (tensor_rank data).
                 scast (tensor_dimensions data ! k - 1) * scast (tensor_strides data ! k))"
proof (induction data i result rule: GetTensorNumElements_loop.induct)
  case (1 data i result)
  show ?case
  proof (cases "i < tensor_rank data")
    case True
    then have "nat i < nat (tensor_rank data)" and "nat (i + 1) = Suc (nat i)"
      using "1.prems" by auto
    then show ?thesis
      using True "1.IH" "1.prems"
      by (subst GetTensorNumElements_loop.simps) (simp add: sum.atLeast_Suc_lessThan add.assoc)
  next
    case False
    then show ?thesis using "1.prems"
      by (subst GetTensorNumElements_loop.simps) simp
  qed
qed

lemma GetFilterNumElements_loop_prod:
  "0 \<le> i \<Longrightarrow> GetFilterNumElements_loop data i result =
     result * (\<Prod>k = nat i..<nat (filter_rank data). scast (filter_dimensions data ! k))"
proof (induction data i result rule: GetFilterNumElements_loop.induct)
  case (1 data i result)
  show ?case
  proof (cases "i < filter_rank data")
    case True
    then have "nat i < nat (filter_rank data)" and "nat (i + 1) = Suc (nat i)"
      using "1.prems" by auto
    then show ?thesis
      using True "1.IH" "1.prems"
      by (subst GetFilterNumElements_loop.simps) (simp add: prod.atLeast_Suc_lessThan mult.assoc)
  next
    case False
    then show ?thesis using "1.prems"
      by (subst GetFilterNumElements_loop.simps) simp
  qed
qed

text \<open>The sum of the spans of the axes of a packed layout telescopes to the product.\<close>

lemma packed_span_telescopes:
  fixes D :: "nat \<Rightarrow> int"
  shows "i \<le> r \<Longrightarrow>
    (\<Sum>k = i..<r. (D k - 1) * (\<Prod>j = Suc k..<r. D j)) = (\<Prod>j = i..<r. D j) - 1"
proof (induction "r - i" arbitrary: i)
  case 0
  then show ?case by simp
next
  case (Suc n)
  then have "i < r" and "n = r - Suc i" and "Suc i \<le> r" by auto
  then show ?case
    using Suc.hyps(1) [of "Suc i"]
    by (simp add: sum.atLeast_Suc_lessThan prod.atLeast_Suc_lessThan algebra_simps)
qed

lemma GetTensorNumElements_int:
  "GetTensorNumElements t =
     word_of_int (1 + (\<Sum>i<nat (tensor_rank t).
        sint (tensor_dimensions t ! i - 1) * sint (tensor_strides t ! i)))"
proof -
  have "scast a * scast b = (word_of_int (sint a * sint b) :: size_t)" for a b :: int32
    by (simp only: scast_eq of_int_mult)
  then show ?thesis
    by (simp only: GetTensorNumElements_def GetTensorNumElements_loop_sum [OF order_refl]
        of_int_add of_int_sum of_int_1 nat_0 atLeast0LessThan)
qed

lemma GetFilterNumElements_int:
  "GetFilterNumElements f =
     word_of_int (\<Prod>i<nat (filter_rank f). sint (filter_dimensions f ! i))"
  by (simp only: GetFilterNumElements_def GetFilterNumElements_loop_prod [OF order_refl]
      scast_eq of_int_prod nat_0 atLeast0LessThan mult_1)

lemma sint_pred:
  fixes d :: int32
  assumes "0 < sint d"
  shows "sint (d - 1) = sint d - 1"
proof -
  have "sint d < 2 ^ 31" using sint_lt [of d] by simp
  then show ?thesis
    using assms by (simp add: sint_word_diff signed_take_bit_int_eq_self)
qed

lemma GetTensorNumElements_packed:
  assumes "\<forall>i<nat (tensor_rank t). 0 < sint (tensor_dimensions t ! i) \<and>
      sint (tensor_strides t ! i) =
        (\<Prod>j = Suc i..<nat (tensor_rank t). sint (tensor_dimensions t ! j))"
  shows "GetTensorNumElements t =
    word_of_int (\<Prod>i<nat (tensor_rank t). sint (tensor_dimensions t ! i))"
proof -
  let ?r = "nat (tensor_rank t)"
  let ?D = "\<lambda>i. sint (tensor_dimensions t ! i)"
  have "(\<Sum>i<?r. sint (tensor_dimensions t ! i - 1) * sint (tensor_strides t ! i))
      = (\<Sum>i = 0..<?r. (?D i - 1) * (\<Prod>j = Suc i..<?r. ?D j))"
    unfolding atLeast0LessThan using assms by (intro sum.cong) (simp_all add: sint_pred)
  also have "\<dots> = (\<Prod>j = 0..<?r. ?D j) - 1"
    by (rule packed_span_telescopes) simp
  finally show ?thesis
    by (simp add: GetTensorNumElements_int atLeast0LessThan)
qed

text \<open>
  Claim C9, as the code has it. For every tensor descriptor, \<^verbatim>\<open>GetTensorNumElements\<close> returns
  one plus the sum over the axes \<open>i\<close> below the rank of \<open>(dim[i] - 1) * stride[i]\<close>, as a
  \<^verbatim>\<open>size_t\<close> (so modulo \<open>2 ^ 64\<close>; the subtraction is the one on \<^verbatim>\<open>int\<close>). For a fully packed
  tensor (positive dimensions, each stride the product of the dimensions of the axes after
  it) this is the product of the dimensions. For other layouts it can differ from the
  product, and need not: the strided tensor of dimensions \<open>[2, 2]\<close> and strides \<open>[4, 1]\<close>
  gives 6, and the overlapping one of strides \<open>[0, 1]\<close> gives 2, where the product is 4.
\<close>

theorem GetTensorNumElements_address_span:
  "GetTensorNumElements t =
     word_of_int (1 + (\<Sum>i<nat (tensor_rank t).
        sint (tensor_dimensions t ! i - 1) * sint (tensor_strides t ! i)))
   \<and> ((\<forall>i<nat (tensor_rank t). 0 < sint (tensor_dimensions t ! i) \<and>
          sint (tensor_strides t ! i) =
            (\<Prod>j = Suc i..<nat (tensor_rank t). sint (tensor_dimensions t ! j)))
        \<longrightarrow> GetTensorNumElements t =
              word_of_int (\<Prod>i<nat (tensor_rank t). sint (tensor_dimensions t ! i)))
   \<and> GetTensorNumElements \<lparr>tensor_data_type = CUDNN_DATA_FLOAT, tensor_rank = 2,
        tensor_dimensions = [2, 2], tensor_strides = [4, 1]\<rparr> = 6
   \<and> GetTensorNumElements \<lparr>tensor_data_type = CUDNN_DATA_FLOAT, tensor_rank = 2,
        tensor_dimensions = [2, 2], tensor_strides = [0, 1]\<rparr> = 2
   \<and> (\<Prod>i<nat 2. sint ([2, 2 :: int32] ! i)) = 4"
proof -
  have "GetTensorNumElements \<lparr>tensor_data_type = CUDNN_DATA_FLOAT, tensor_rank = 2,
        tensor_dimensions = [2, 2], tensor_strides = [4, 1]\<rparr> = 6"
    by (simp add: GetTensorNumElements_def GetTensorNumElements_loop.simps)
  moreover have "GetTensorNumElements \<lparr>tensor_data_type = CUDNN_DATA_FLOAT, tensor_rank = 2,
        tensor_dimensions = [2, 2], tensor_strides = [0, 1]\<rparr> = 2"
    by (simp add: GetTensorNumElements_def GetTensorNumElements_loop.simps)
  moreover have "(\<Prod>i<nat 2. sint ([2, 2 :: int32] ! i)) = 4"
    by (simp add: lessThan_Suc numeral_2_eq_2)
  ultimately show ?thesis
    using GetTensorNumElements_int [of t] GetTensorNumElements_packed [of t] by blast
qed

text \<open>
  The packed tensor of dimensions \<open>[2, 3, 4]\<close>, strides \<open>[12, 4, 1]\<close>, has 24 elements.
\<close>

theorem GetTensorNumElements_address_span_witness:
  "list_all (\<lambda>i. 0 < sint ([2, 3, 4 :: int32] ! i) \<and>
      sint ([12, 4, 1 :: int32] ! i) = (\<Prod>j = Suc i..<3. sint ([2, 3, 4 :: int32] ! j))) [0, 1, 2]
   \<and> GetTensorNumElements \<lparr>tensor_data_type = CUDNN_DATA_FLOAT, tensor_rank = 3,
        tensor_dimensions = [2, 3, 4], tensor_strides = [12, 4, 1]\<rparr> = 24"
proof -
  let ?t = "\<lparr>tensor_data_type = CUDNN_DATA_FLOAT, tensor_rank = 3,
        tensor_dimensions = [2, 3, 4], tensor_strides = [12, 4, 1 :: int32]\<rparr>"
  have packed: "list_all (\<lambda>i. 0 < sint ([2, 3, 4 :: int32] ! i) \<and>
      sint ([12, 4, 1 :: int32] ! i) = (\<Prod>j = Suc i..<3. sint ([2, 3, 4 :: int32] ! j))) [0, 1, 2]"
    by (simp add: numeral_3_eq_3 prod.atLeast_Suc_lessThan)
  then have "\<forall>i<nat (tensor_rank ?t). 0 < sint (tensor_dimensions ?t ! i) \<and>
          sint (tensor_strides ?t ! i) =
            (\<Prod>j = Suc i..<nat (tensor_rank ?t). sint (tensor_dimensions ?t ! j))"
    by (simp add: numeral_3_eq_3 All_less_Suc)
  with GetTensorNumElements_address_span [of ?t]
  have "GetTensorNumElements ?t =
      word_of_int (\<Prod>i<nat (tensor_rank ?t). sint (tensor_dimensions ?t ! i))"
    by blast
  also have "\<dots> = 24"
    by (simp add: numeral_3_eq_3 lessThan_Suc)
  finally show ?thesis
    using packed by blast
qed

text \<open>
  Claim C9 as stated fails where it says that every strided or overlapping layout differs
  from the product: the overlapping tensor of dimensions \<open>[2, 3]\<close> and strides \<open>[5, 0]\<close> has
  the address span 6, and the strided one of dimensions \<open>[1, 2]\<close> and strides \<open>[7, 1]\<close> the
  address span 2; both are the product of the dimensions, and neither has the packed
  strides (\<open>[3, 1]\<close> and \<open>[2, 1]\<close>).
\<close>

theorem GetTensorNumElements_address_span_counterexample:
  "GetTensorNumElements \<lparr>tensor_data_type = CUDNN_DATA_FLOAT, tensor_rank = 2,
        tensor_dimensions = [2, 3], tensor_strides = [5, 0]\<rparr> = 6
   \<and> (\<Prod>i<nat 2. sint ([2, 3 :: int32] ! i)) = 6
   \<and> packed_strides [2, 3] = [3, 1]
   \<and> GetTensorNumElements \<lparr>tensor_data_type = CUDNN_DATA_FLOAT, tensor_rank = 2,
        tensor_dimensions = [1, 2], tensor_strides = [7, 1]\<rparr> = 2
   \<and> (\<Prod>i<nat 2. sint ([1, 2 :: int32] ! i)) = 2
   \<and> packed_strides [1, 2] = [2, 1]"
proof -
  have "GetTensorNumElements \<lparr>tensor_data_type = CUDNN_DATA_FLOAT, tensor_rank = 2,
        tensor_dimensions = [2, 3], tensor_strides = [5, 0]\<rparr> = 6"
    by (simp add: GetTensorNumElements_def GetTensorNumElements_loop.simps)
  moreover have "GetTensorNumElements \<lparr>tensor_data_type = CUDNN_DATA_FLOAT, tensor_rank = 2,
        tensor_dimensions = [1, 2], tensor_strides = [7, 1]\<rparr> = 2"
    by (simp add: GetTensorNumElements_def GetTensorNumElements_loop.simps)
  moreover have "(\<Prod>i<nat 2. sint ([2, 3 :: int32] ! i)) = 6"
    "(\<Prod>i<nat 2. sint ([1, 2 :: int32] ! i)) = 2"
    by (simp_all add: lessThan_Suc numeral_2_eq_2)
  moreover have "packed_strides [2, 3] = [3, 1]" "packed_strides [1, 2] = [2, 1]"
    by (simp_all add: packed_strides_def upt_rec [of 0] upt_rec [of 1] upt_rec [of 2])
  ultimately show ?thesis
    by blast
qed

lemma CreateDeviceDataHelper_cases:
  "CreateDeviceDataHelper create data_type num_elements lower upper rand_gen =
     (if data_type = CUDNN_DATA_FLOAT \<or> data_type = CUDNN_DATA_DOUBLE \<or> data_type = CUDNN_DATA_HALF
      then Returns (create data_type num_elements lower upper rand_gen)
      else Aborts FATAL_not_yet_supported)"
  by (cases data_type) (simp_all add: CreateDeviceDataHelper_def)

text \<open>
  Claim C10. For every filter descriptor, \<^verbatim>\<open>GetFilterNumElements\<close> returns the product of the
  dimensions of the axes below the rank, as a \<^verbatim>\<open>size_t\<close> (filters have no strides). For a
  filter of element kind \<^verbatim>\<open>float\<close>, \<^verbatim>\<open>double\<close> or \<^verbatim>\<open>__half\<close>, \<^verbatim>\<open>CreateFilterData\<close> returns what
  \<^verbatim>\<open>CreateDeviceData\<close> of that kind returns for this product as the number of elements, with
  the bounds and the generator it was given; for any other kind it ends the process.
  \<^verbatim>\<open>CreateTensorData\<close> does the same with the address span of the tensor as the number of
  elements.
\<close>

theorem GetFilterNumElements_product:
  "GetFilterNumElements f =
     word_of_int (\<Prod>i<nat (filter_rank f). sint (filter_dimensions f ! i))
   \<and> CreateFilterData create f lower upper rand_gen =
       (if filter_data_type f = CUDNN_DATA_FLOAT \<or> filter_data_type f = CUDNN_DATA_DOUBLE
           \<or> filter_data_type f = CUDNN_DATA_HALF
        then Returns (create (filter_data_type f)
               (word_of_int (\<Prod>i<nat (filter_rank f). sint (filter_dimensions f ! i)))
               lower upper rand_gen)
        else Aborts FATAL_not_yet_supported)
   \<and> CreateTensorData create t lower upper rand_gen =
       (if tensor_data_type t = CUDNN_DATA_FLOAT \<or> tensor_data_type t = CUDNN_DATA_DOUBLE
           \<or> tensor_data_type t = CUDNN_DATA_HALF
        then Returns (create (tensor_data_type t)
               (word_of_int (1 + (\<Sum>i<nat (tensor_rank t).
                  sint (tensor_dimensions t ! i - 1) * sint (tensor_strides t ! i))))
               lower upper rand_gen)
        else Aborts FATAL_not_yet_supported)"
  by (simp only: CreateFilterData_def CreateTensorData_def GetFilterDataType_def
      GetTensorDataType_def GetFilterNumElements_int GetTensorNumElements_int
      CreateDeviceDataHelper_cases simp_thms)

text \<open>
  With a \<^verbatim>\<open>CreateDeviceData\<close> that returns the element kind and the number of elements it was
  asked for: the \<^verbatim>\<open>float\<close> filter of dimensions \<open>[2, 3, 4, 5]\<close> gets 120 elements, the
  \<^verbatim>\<open>float\<close> tensor of dimensions \<open>[2, 2]\<close> and strides \<open>[4, 1]\<close> gets 6 (its product is 4), and
  an \<^verbatim>\<open>int8\<close> filter ends the process.
\<close>

theorem GetFilterNumElements_product_witness:
  "GetFilterNumElements \<lparr>filter_data_type = CUDNN_DATA_FLOAT, filter_format = CUDNN_TENSOR_NCHW,
        filter_rank = 4, filter_dimensions = [2, 3, 4, 5]\<rparr> = 120
   \<and> CreateFilterData (\<lambda>kind num_elements lower upper rand_gen. Inr (kind, num_elements))
        \<lparr>filter_data_type = CUDNN_DATA_FLOAT, filter_format = CUDNN_TENSOR_NCHW,
         filter_rank = 4, filter_dimensions = [2, 3, 4, 5]\<rparr> (0 :: int) (1 :: int) () =
       Returns (Inr (CUDNN_DATA_FLOAT, 120))
   \<and> CreateTensorData (\<lambda>kind num_elements lower upper rand_gen. Inr (kind, num_elements))
        \<lparr>tensor_data_type = CUDNN_DATA_FLOAT, tensor_rank = 2,
         tensor_dimensions = [2, 2], tensor_strides = [4, 1]\<rparr> (0 :: int) (1 :: int) () =
       Returns (Inr (CUDNN_DATA_FLOAT, 6))
   \<and> CreateFilterData (\<lambda>kind num_elements lower upper rand_gen. Inr (kind, num_elements))
        \<lparr>filter_data_type = CUDNN_DATA_INT8, filter_format = CUDNN_TENSOR_NCHW,
         filter_rank = 4, filter_dimensions = [2, 3, 4, 5]\<rparr> (0 :: int) (1 :: int) () =
       Aborts FATAL_not_yet_supported"
proof -
  let ?create = "\<lambda>(kind :: cudnnDataType_t) (num_elements :: size_t) (lower :: int) (upper :: int)
      (rand_gen :: unit). (Inr (kind, num_elements) :: error + cudnnDataType_t \<times> size_t)"
  let ?f = "\<lparr>filter_data_type = CUDNN_DATA_FLOAT, filter_format = CUDNN_TENSOR_NCHW,
        filter_rank = 4, filter_dimensions = [2, 3, 4, 5 :: int32]\<rparr>"
  let ?g = "\<lparr>filter_data_type = CUDNN_DATA_INT8, filter_format = CUDNN_TENSOR_NCHW,
        filter_rank = 4, filter_dimensions = [2, 3, 4, 5 :: int32]\<rparr>"
  let ?t = "\<lparr>tensor_data_type = CUDNN_DATA_FLOAT, tensor_rank = 2,
         tensor_dimensions = [2, 2 :: int32], tensor_strides = [4, 1 :: int32]\<rparr>"
  have prod: "(\<Prod>i<nat (filter_rank ?f). sint (filter_dimensions ?f ! i)) = 120"
    by (simp add: lessThan_Suc eval_nat_numeral)
  have span: "1 + (\<Sum>i<nat (tensor_rank ?t).
      sint (tensor_dimensions ?t ! i - 1) * sint (tensor_strides ?t ! i)) = 6"
    by (simp add: lessThan_Suc eval_nat_numeral)
  note inst = GetFilterNumElements_product [of ?f ?create 0 1 "()" ?t, unfolded prod span]
  note inst_int8 = GetFilterNumElements_product [of ?g ?create 0 1 "()" ?t]
  have "GetFilterNumElements ?f = 120"
    using inst by simp
  moreover have "CreateFilterData ?create ?f 0 1 () = Returns (Inr (CUDNN_DATA_FLOAT, 120))"
    using inst by simp
  moreover have "CreateTensorData ?create ?t 0 1 () = Returns (Inr (CUDNN_DATA_FLOAT, 6))"
    using inst by simp
  moreover have "CreateFilterData ?create ?g 0 1 () = Aborts FATAL_not_yet_supported"
    using inst_int8 by simp
  ultimately show ?thesis
    by blast
qed

subsection \<open>Packed strides\<close>

lemma GetFullyPackedStrides_loop_length [simp]:
  "length (GetFullyPackedStrides_loop dims i stride result) = length result"
proof (induction dims i stride result rule: GetFullyPackedStrides_loop.induct)
  case (1 dims i stride result)
  then show ?case
    by (subst GetFullyPackedStrides_loop.simps) simp
qed







lemma CHECK_OK_STATUS_Returns:
  "CHECK_OK_STATUS status continue = Returns x \<longleftrightarrow> status = CUDNN_STATUS_SUCCESS \<and> continue = Returns x"
  by (simp add: CHECK_OK_STATUS_def)






subsection \<open>Enumerating and searching algorithms\<close>

lemma GetSupportedConvolutionAlgosImpl_loop_eq:
  "GetSupportedConvolutionAlgosImpl_loop lib T input filter_desc convolution out L n i acc =
     (fst acc @ map T (filter (\<lambda>j. \<exists>s. GetWorkspaceSize lib input filter_desc convolution out (T j) = Inr s \<and> s \<le> L) [i..n - 1]),
      snd acc @ map T [i..n - 1])"
proof (induction lib T input filter_desc convolution out L n i acc
    rule: GetSupportedConvolutionAlgosImpl_loop.induct)
  case (1 lib T input filter_desc convolution out L n i result queried)
  show ?case
  proof (cases "i < n")
    case False
    then show ?thesis
      by (subst GetSupportedConvolutionAlgosImpl_loop.simps) simp
  next
    case True
    then have upto: "[i..n - 1] = i # [i + 1..n - 1]"
      by (simp add: upto_rec1)
    show ?thesis
      using True
      by (subst GetSupportedConvolutionAlgosImpl_loop.simps)
        (simp add: "1.IH" upto Let_def split: sum.split)
  qed
qed

lemma GetSupportedConvolutionAlgosImpl_eq:
  "GetSupportedConvolutionAlgosImpl lib T input filter_desc convolution out L n =
     (map T (filter (\<lambda>j. \<exists>s. GetWorkspaceSize lib input filter_desc convolution out (T j) = Inr s \<and> s \<le> L) [0..n - 1]),
      map T [0..n - 1])"
  by (simp add: GetSupportedConvolutionAlgosImpl_def GetSupportedConvolutionAlgosImpl_loop_eq)

lemma ascending_ids:
  assumes "\<And>i. algo_id (T i) = i"
  shows "sorted_wrt (<) (map algo_id (map T (filter P [0..k])))"
proof -
  have "map algo_id (map T (filter P [0..k])) = filter P [0..k]"
    using assms by (simp add: map_idI)
  then show ?thesis
    by (simp add: sorted_wrt_filter)
qed

text \<open>
  Claim C1. For each of the three directions, with \<open>K\<close> the count of its algorithm
  enumerators, \<^verbatim>\<open>GetSupportedConvolutionAlgos\<close> passes every value from 0 to \<open>K - 1\<close> to
  \<^verbatim>\<open>GetWorkspaceSize\<close>, once and in that order, and returns exactly those for which the query
  succeeds with a size of at most the workspace limit, in the order of their values,
  which is ascending.
\<close>

theorem GetSupportedConvolutionAlgos_enumerates:
  "GetSupportedConvolutionAlgos lib CONVOLUTION_FWD input filter_desc convolution out L =
     Returns
      (map FwdAlgo (filter
         (\<lambda>i. \<exists>s. GetWorkspaceSize lib input filter_desc convolution out (FwdAlgo i) = Inr s \<and> s \<le> L)
         [0..CUDNN_CONVOLUTION_FWD_ALGO_COUNT lib - 1]),
       map FwdAlgo [0..CUDNN_CONVOLUTION_FWD_ALGO_COUNT lib - 1])
   \<and> GetSupportedConvolutionAlgos lib CONVOLUTION_BWD_DATA input filter_desc convolution out L =
     Returns
      (map BwdDataAlgo (filter
         (\<lambda>i. \<exists>s. GetWorkspaceSize lib input filter_desc convolution out (BwdDataAlgo i) = Inr s \<and> s \<le> L)
         [0..CUDNN_CONVOLUTION_BWD_DATA_ALGO_COUNT lib - 1]),
       map BwdDataAlgo [0..CUDNN_CONVOLUTION_BWD_DATA_ALGO_COUNT lib - 1])
   \<and> GetSupportedConvolutionAlgos lib CONVOLUTION_BWD_FILTER input filter_desc convolution out L =
     Returns
      (map BwdFilterAlgo (filter
         (\<lambda>i. \<exists>s. GetWorkspaceSize lib input filter_desc convolution out (BwdFilterAlgo i) = Inr s \<and> s \<le> L)
         [0..CUDNN_CONVOLUTION_BWD_FILTER_ALGO_COUNT lib - 1]),
       map BwdFilterAlgo [0..CUDNN_CONVOLUTION_BWD_FILTER_ALGO_COUNT lib - 1])
   \<and> (\<forall>result queried.
        GetSupportedConvolutionAlgos lib direction input filter_desc convolution out L =
          Returns (result, queried)
        \<longrightarrow> sorted_wrt (<) (map algo_id result))"
proof -
  have "sorted_wrt (<) (map algo_id result)"
    if "GetSupportedConvolutionAlgos lib direction input filter_desc convolution out L =
          Returns (result, queried)" for result queried
    using that
    by (cases direction)
      (auto simp: GetSupportedConvolutionAlgos_def GetSupportedConvolutionAlgosImpl_eq
        intro!: ascending_ids)
  then show ?thesis
    by (simp add: GetSupportedConvolutionAlgos_def GetSupportedConvolutionAlgosImpl_eq)
qed



text \<open>
  On the sample library with a limit of 450 bytes all eight forward algorithms are queried;
  0, 1, 2 and 4 are returned (3 is not supported, and 5, 6 and 7 need more).
\<close>

theorem GetSupportedConvolutionAlgos_enumerates_witness:
  "GetSupportedConvolutionAlgos sample_algorithms CONVOLUTION_FWD sample_input sample_filter
      sample_convolution sample_output 450 =
     Returns ([FwdAlgo 0, FwdAlgo 1, FwdAlgo 2, FwdAlgo 4],
       [FwdAlgo 0, FwdAlgo 1, FwdAlgo 2, FwdAlgo 3, FwdAlgo 4, FwdAlgo 5, FwdAlgo 6, FwdAlgo 7])
   \<and> sorted_wrt (<) (map algo_id [FwdAlgo 0, FwdAlgo 1, FwdAlgo 2, FwdAlgo 4])"
proof -
  have "GetSupportedConvolutionAlgos sample_algorithms CONVOLUTION_FWD sample_input sample_filter
      sample_convolution sample_output 450 =
     Returns ([FwdAlgo 0, FwdAlgo 1, FwdAlgo 2, FwdAlgo 4],
       [FwdAlgo 0, FwdAlgo 1, FwdAlgo 2, FwdAlgo 3, FwdAlgo 4, FwdAlgo 5, FwdAlgo 6, FwdAlgo 7])"
    using GetSupportedConvolutionAlgos_enumerates [of sample_algorithms sample_input sample_filter
        sample_convolution sample_output 450 CONVOLUTION_FWD]
    by (simp add: sample_algorithms_def GetWorkspaceSize_def upto.simps)
  then show ?thesis
    using GetSupportedConvolutionAlgos_enumerates [of sample_algorithms sample_input sample_filter
        sample_convolution sample_output 450 CONVOLUTION_FWD]
    by blast
qed

text \<open>
  Claim C6, as the code has it. \<^verbatim>\<open>FindConvolutionAlgo\<close> asks the allocator for exactly
  \<open>workspace_limit\<close> bytes and returns the allocator's error if there is one. Otherwise it
  calls the search of the direction with a request for one result, the workspace and
  \<open>workspace_limit\<close>; if that call fails it returns the library's error; if it succeeds, the
  result is the error "No supported algorithm" exactly when the number of results is 0 or
  the status of the single result is not success, and the algorithm of that result
  otherwise. A direction other than the three is the error "Unsupported".
\<close>

theorem FindConvolutionAlgo_result:
  "(\<forall>err. AllocateDeviceMemory L = Inl err \<longrightarrow>
      FindConvolutionAlgo AllocateDeviceMemory lib direction input_desc input_data filter_desc
        filter_data convolution_desc output_desc output_data L = Inl err)
   \<and> (\<forall>workspace status n perf.
        AllocateDeviceMemory L = Inr workspace \<and>
        cudnnFindConvolutionForwardAlgorithmEx lib input_desc input_data filter_desc filter_data
          convolution_desc output_desc output_data 1 workspace L = (status, n, perf) \<longrightarrow>
        FindConvolutionAlgo AllocateDeviceMemory lib CONVOLUTION_FWD input_desc input_data
          filter_desc filter_data convolution_desc output_desc output_data L =
          (if status \<noteq> CUDNN_STATUS_SUCCESS then Inl (CudnnError status)
           else if n = 0 \<or> perf_status perf \<noteq> CUDNN_STATUS_SUCCESS then Inl NoSupportedAlgorithm
           else Inr (FwdAlgo (perf_algo perf))))
   \<and> (\<forall>workspace status n perf.
        AllocateDeviceMemory L = Inr workspace \<and>
        cudnnFindConvolutionBackwardDataAlgorithmEx lib filter_desc filter_data output_desc
          output_data convolution_desc input_desc input_data 1 workspace L = (status, n, perf) \<longrightarrow>
        FindConvolutionAlgo AllocateDeviceMemory lib CONVOLUTION_BWD_DATA input_desc input_data
          filter_desc filter_data convolution_desc output_desc output_data L =
          (if status \<noteq> CUDNN_STATUS_SUCCESS then Inl (CudnnError status)
           else if n = 0 \<or> perf_status perf \<noteq> CUDNN_STATUS_SUCCESS then Inl NoSupportedAlgorithm
           else Inr (BwdDataAlgo (perf_algo perf))))
   \<and> (\<forall>workspace status n perf.
        AllocateDeviceMemory L = Inr workspace \<and>
        cudnnFindConvolutionBackwardFilterAlgorithmEx lib input_desc input_data output_desc
          output_data convolution_desc filter_desc filter_data 1 workspace L = (status, n, perf) \<longrightarrow>
        FindConvolutionAlgo AllocateDeviceMemory lib CONVOLUTION_BWD_FILTER input_desc input_data
          filter_desc filter_data convolution_desc output_desc output_data L =
          (if status \<noteq> CUDNN_STATUS_SUCCESS then Inl (CudnnError status)
           else if n = 0 \<or> perf_status perf \<noteq> CUDNN_STATUS_SUCCESS then Inl NoSupportedAlgorithm
           else Inr (BwdFilterAlgo (perf_algo perf))))
   \<and> (\<forall>workspace d.
        AllocateDeviceMemory L = Inr workspace \<longrightarrow>
        FindConvolutionAlgo AllocateDeviceMemory lib (CONVOLUTION_DIRECTION_other d) input_desc
          input_data filter_desc filter_data convolution_desc output_desc output_data L =
          Inl (UnsupportedDirection d))"
  by (simp add: FindConvolutionAlgo_def ToConvolutionAlgo_def)

text \<open>
  With 1024 bytes the sample allocator succeeds; the forward search returns algorithm 1,
  and the backward-filter search, whose single result has an error status, gives
  "No supported algorithm".
\<close>

theorem FindConvolutionAlgo_result_witness:
  "sample_allocator 1024 = Inr 7
   \<and> cudnnFindConvolutionForwardAlgorithmEx sample_algorithms sample_input 1 sample_filter 2
        sample_convolution sample_output 3 1 7 1024 =
        (CUDNN_STATUS_SUCCESS, 1, \<lparr>perf_algo = 1, perf_status = CUDNN_STATUS_SUCCESS\<rparr>)
   \<and> FindConvolutionAlgo sample_allocator sample_algorithms CONVOLUTION_FWD sample_input 1
        sample_filter 2 sample_convolution sample_output 3 1024 = Inr (FwdAlgo 1)
   \<and> FindConvolutionAlgo sample_allocator sample_algorithms CONVOLUTION_BWD_FILTER sample_input 1
        sample_filter 2 sample_convolution sample_output 3 1024 = Inl NoSupportedAlgorithm"
proof -
  have alloc: "sample_allocator 1024 = Inr 7"
    by (simp add: sample_allocator_def)
  have fwd: "cudnnFindConvolutionForwardAlgorithmEx sample_algorithms sample_input 1 sample_filter 2
        sample_convolution sample_output 3 1 7 1024 =
        (CUDNN_STATUS_SUCCESS, 1, \<lparr>perf_algo = 1, perf_status = CUDNN_STATUS_SUCCESS\<rparr>)"
    by (simp add: sample_algorithms_def)
  have bwd: "cudnnFindConvolutionBackwardFilterAlgorithmEx sample_algorithms sample_input 1
        sample_output 3 sample_convolution sample_filter 2 1 7 1024 =
        (CUDNN_STATUS_SUCCESS, 1, \<lparr>perf_algo = 0, perf_status = CUDNN_STATUS_ERROR 9\<rparr>)"
    by (simp add: sample_algorithms_def)
  note inst = FindConvolutionAlgo_result [of sample_allocator 1024 sample_algorithms CONVOLUTION_FWD
      sample_input 1 sample_filter 2 sample_convolution sample_output 3]
  have "FindConvolutionAlgo sample_allocator sample_algorithms CONVOLUTION_FWD sample_input 1
        sample_filter 2 sample_convolution sample_output 3 1024 = Inr (FwdAlgo 1)"
    using inst alloc fwd by simp
  moreover have "FindConvolutionAlgo sample_allocator sample_algorithms CONVOLUTION_BWD_FILTER sample_input 1
        sample_filter 2 sample_convolution sample_output 3 1024 = Inl NoSupportedAlgorithm"
    using inst alloc bwd by simp
  ultimately show ?thesis
    using alloc fwd by simp
qed

text \<open>
  Claim C6 as stated fails where the allocation or the search call itself fails: with a
  limit of 8192 bytes the sample allocator refuses, and the result is its error, neither
  "No supported algorithm" nor an algorithm; and the backward-data search, which fails and
  reports zero results, gives the library's error and not "No supported algorithm".
\<close>

theorem FindConvolutionAlgo_counterexample:
  "FindConvolutionAlgo sample_allocator sample_algorithms CONVOLUTION_FWD sample_input 1
        sample_filter 2 sample_convolution sample_output 3 8192 = Inl (CudaError 2)
   \<and> FindConvolutionAlgo sample_allocator sample_algorithms CONVOLUTION_BWD_DATA sample_input 1
        sample_filter 2 sample_convolution sample_output 3 1024 = Inl (CudnnError (CUDNN_STATUS_ERROR 3))
   \<and> cudnnFindConvolutionBackwardDataAlgorithmEx sample_algorithms sample_filter 2 sample_output 3
        sample_convolution sample_input 1 1 7 1024 =
        (CUDNN_STATUS_ERROR 3, 0, \<lparr>perf_algo = 0, perf_status = CUDNN_STATUS_ERROR 3\<rparr>)"
  by (simp add: FindConvolutionAlgo_def sample_allocator_def sample_algorithms_def)

subsection \<open>Scaling factors\<close>

text \<open>
  Claim C7. \<^verbatim>\<open>RunConvolution\<close> passes \<open>alpha\<close> and \<open>beta\<close> to the library as \<^verbatim>\<open>double\<close> when the
  element kind of the relevant descriptor is \<^verbatim>\<open>CUDNN_DATA_DOUBLE\<close> and cast to \<^verbatim>\<open>float\<close>
  otherwise; the relevant descriptor is the output tensor for a forward algorithm, the
  input tensor for a backward-data algorithm and the filter for a backward-filter
  algorithm.
\<close>

theorem RunConvolution_scaling_factors:
  "RunConvolution lib cast (FwdAlgo a) alpha beta input_desc input_data filter_desc filter_data
       convolution_desc output_desc output_data workspace workspace_size =
     GetStatus (cudnnConvolutionForward lib
       (if tensor_data_type output_desc = CUDNN_DATA_DOUBLE then double_value alpha
        else float_value (cast alpha))
       input_desc input_data filter_desc filter_data convolution_desc a workspace workspace_size
       (if tensor_data_type output_desc = CUDNN_DATA_DOUBLE then double_value beta
        else float_value (cast beta))
       output_desc output_data)
   \<and> RunConvolution lib cast (BwdDataAlgo a) alpha beta input_desc input_data filter_desc filter_data
       convolution_desc output_desc output_data workspace workspace_size =
     GetStatus (cudnnConvolutionBackwardData lib
       (if tensor_data_type input_desc = CUDNN_DATA_DOUBLE then double_value alpha
        else float_value (cast alpha))
       filter_desc filter_data output_desc output_data convolution_desc a workspace workspace_size
       (if tensor_data_type input_desc = CUDNN_DATA_DOUBLE then double_value beta
        else float_value (cast beta))
       input_desc input_data)
   \<and> RunConvolution lib cast (BwdFilterAlgo a) alpha beta input_desc input_data filter_desc filter_data
       convolution_desc output_desc output_data workspace workspace_size =
     GetStatus (cudnnConvolutionBackwardFilter lib
       (if filter_data_type filter_desc = CUDNN_DATA_DOUBLE then double_value alpha
        else float_value (cast alpha))
       input_desc input_data output_desc output_data convolution_desc a workspace workspace_size
       (if filter_data_type filter_desc = CUDNN_DATA_DOUBLE then double_value beta
        else float_value (cast beta))
       filter_desc filter_data)"
  by (simp add: RunConvolution_def ScalingFactor_tensor_def ScalingFactor_filter_def
      ScalingFactor_data_type_def)

subsection \<open>The output shape\<close>


lemma output_dimensions_loop_length [simp]:
  "length (output_dimensions_loop input_data filter_data conv_data i od) = length od"
proof (induction input_data filter_data conv_data i od rule: output_dimensions_loop.induct)
  case (1 input_data filter_data conv_data i od)
  then show ?case
    by (subst output_dimensions_loop.simps) simp
qed



lemma int_divide_one: "int_divide x 1 = x"
proof -
  have "sint x sdiv 1 = sint x"
    by (simp add: signed_divide_int_def sgn_mult_abs)
  then show ?thesis
    by (simp add: int_divide_def)
qed










text \<open>
  The 4-d path hands on what the library reports: with a library that reports
  \<open>[7, 7, 7, 7]\<close> for the 4-d sample, these are the output dimensions, where the formula of
  the other path gives \<open>[1, 1, 2, 2]\<close>.
\<close>

lemma CreateOutputDescriptor_4d_reported_dimensions:
  "CreateOutputDescriptor
        (sample_cudnn\<lparr>cudnnGetConvolution2dForwardOutputDim :=
           \<lambda>conv x w. (CUDNN_STATUS_SUCCESS, 7, 7, 7, 7)\<rparr>)
        CUDNN_TENSOR_NCHW sample_input sample_filter sample_convolution =
       Returns (Inr \<lparr>tensor_data_type = CUDNN_DATA_FLOAT, tensor_rank = 4,
         tensor_dimensions = [7, 7, 7, 7], tensor_strides = [343, 49, 7, 1]\<rparr>)
   \<and> packed_output_dimensions sample_input sample_filter sample_convolution = [1, 1, 2, 2]"
proof -
  have "packed_output_dimensions sample_input sample_filter sample_convolution = [1, 1, 2, 2]"
    by (simp add: packed_output_dimensions_def sample_input_def sample_filter_def
        sample_convolution_def slot_def upt_rec [of 0] upt_rec [of 1] upt_rec [of 2]
        upt_rec [of 3] upt_rec [of 4] eval_nat_numeral)
  moreover have "CreateOutputDescriptor
        (sample_cudnn\<lparr>cudnnGetConvolution2dForwardOutputDim :=
           \<lambda>conv x w. (CUDNN_STATUS_SUCCESS, 7, 7, 7, 7)\<rparr>)
        CUDNN_TENSOR_NCHW sample_input sample_filter sample_convolution =
       Returns (Inr \<lparr>tensor_data_type = CUDNN_DATA_FLOAT, tensor_rank = 4,
         tensor_dimensions = [7, 7, 7, 7], tensor_strides = [343, 49, 7, 1]\<rparr>)"
    by (simp add: CreateOutputDescriptor_def CHECK_OK_STATUS_def RETURN_IF_ERROR_STATUS_def
        sample_cudnn_def sample_input_def GetTensorDataType_def)
  ultimately show ?thesis
    by simp
qed

subsection \<open>What the builders return\<close>

lemma RETURN_IF_ERROR_STATUS_Returns:
  "RETURN_IF_ERROR_STATUS status continue = Returns r \<longleftrightarrow>
     (status \<noteq> CUDNN_STATUS_SUCCESS \<and> r = Inl (CudnnError status))
     \<or> (status = CUDNN_STATUS_SUCCESS \<and> continue = Returns r)"
  by (auto simp: RETURN_IF_ERROR_STATUS_def)

lemma CreateTensorDescriptor_malformed:
  assumes "(t_stride proto = []) \<noteq> (t_format_oneof proto \<noteq> None)"
  shows "CreateTensorDescriptor lib proto =
    Aborts (if t_data_type_oneof proto = None then CHECK_data_type_set else CHECK_stride_xor_format)"
  using assms by (simp add: CreateTensorDescriptor_def)

lemma CreateTensorDescriptor_Returns:
  assumes "CreateTensorDescriptor lib proto = Returns descriptor"
  shows "t_data_type_oneof proto \<noteq> None \<and> (t_stride proto = []) = (t_format_oneof proto \<noteq> None)
    \<and> ((\<exists>strides. cudnnSetTensorNdDescriptor lib (proto_data_type (t_data_type_oneof proto))
            (int (length (t_dimension proto))) (t_dimension proto) strides =
            (CUDNN_STATUS_SUCCESS, descriptor))
        \<or> cudnnSetTensor4dDescriptor lib (proto_format (t_format_oneof proto))
            (proto_data_type (t_data_type_oneof proto)) (t_dimension proto ! 0)
            (t_dimension proto ! 1) (t_dimension proto ! 2) (t_dimension proto ! 3) =
            (CUDNN_STATUS_SUCCESS, descriptor))"
  using assms
  by (auto simp: CreateTensorDescriptor_def Let_def CHECK_OK_STATUS_Returns
      split: if_splits option.splits prod.splits)

lemma CreateFilterDescriptor_Returns:
  assumes "CreateFilterDescriptor lib proto = Returns descriptor"
  shows "f_data_type_oneof proto \<noteq> None \<and> f_format_oneof proto \<noteq> None
    \<and> cudnnSetFilterNdDescriptor lib (proto_data_type (f_data_type_oneof proto))
        (proto_format (f_format_oneof proto)) (int (length (f_dimension proto)))
        (f_dimension proto) = (CUDNN_STATUS_SUCCESS, descriptor)"
  using assms
  by (auto simp: CreateFilterDescriptor_def Let_def CHECK_OK_STATUS_Returns
      split: if_splits prod.splits)

lemma CreateConvolutionDescriptor_Returns:
  assumes "CreateConvolutionDescriptor lib proto = Returns descriptor"
  shows "c_compute_mode_oneof proto \<noteq> None
    \<and> (let rank = max (int (length (c_pad proto)))
                    (max (int (length (c_filter_stride proto))) (int (length (c_dilation proto))))
       in \<exists>set grouped.
         cudnnSetConvolutionNdDescriptor lib rank (add_until rank 0 (c_pad proto))
           (add_until rank 1 (c_filter_stride proto)) (add_until rank 1 (c_dilation proto))
           (c_mode proto) (proto_data_type (c_compute_mode_oneof proto)) =
           (CUDNN_STATUS_SUCCESS, set)
         \<and> (if 0 < sint (c_group_count proto)
             then cudnnSetConvolutionGroupCount lib set (c_group_count proto) =
                    (CUDNN_STATUS_SUCCESS, grouped)
             else grouped = set)
         \<and> cudnnSetConvolutionMathType lib grouped (c_math_type proto) =
             (CUDNN_STATUS_SUCCESS, descriptor))"
proof -
  let ?rank = "max (int (length (c_pad proto)))
                    (max (int (length (c_filter_stride proto))) (int (length (c_dilation proto))))"
  obtain status set where set:
    "cudnnSetConvolutionNdDescriptor lib ?rank (add_until ?rank 0 (c_pad proto))
           (add_until ?rank 1 (c_filter_stride proto)) (add_until ?rank 1 (c_dilation proto))
           (c_mode proto) (proto_data_type (c_compute_mode_oneof proto)) = (status, set)"
    by fastforce
  obtain group_status grouped where grouped:
    "(if 0 < sint (c_group_count proto)
      then cudnnSetConvolutionGroupCount lib set (c_group_count proto)
      else (CUDNN_STATUS_SUCCESS, set)) = (group_status, grouped)"
    by fastforce
  obtain math_status final where final:
    "cudnnSetConvolutionMathType lib grouped (c_math_type proto) = (math_status, final)"
    by fastforce
  have mode: "c_compute_mode_oneof proto \<noteq> None"
    using assms by (auto simp: CreateConvolutionDescriptor_def split: if_splits)
  then obtain y where y: "c_compute_mode_oneof proto = Some y"
    by auto
  have "CreateConvolutionDescriptor lib proto =
      CHECK_OK_STATUS (cudnnCreateConvolutionDescriptor lib)
       (CHECK_OK_STATUS status (CHECK_OK_STATUS group_status
         (CHECK_OK_STATUS math_status (Returns final))))"
    unfolding CreateConvolutionDescriptor_def Let_def set [unfolded y] y
    by (simp add: grouped final)
  then have "status = CUDNN_STATUS_SUCCESS \<and> group_status = CUDNN_STATUS_SUCCESS \<and>
      math_status = CUDNN_STATUS_SUCCESS \<and> final = descriptor"
    using assms by (simp add: CHECK_OK_STATUS_def split: if_splits)
  then show ?thesis
    using mode set grouped final by (auto simp: Let_def split: if_splits)
qed

lemma CreateOutputDescriptor_Returns:
  assumes "CreateOutputDescriptor lib format input filter_desc convolution = Returns r"
  shows "(\<exists>status. status \<noteq> CUDNN_STATUS_SUCCESS \<and> r = Inl (CudnnError status))
    \<or> (tensor_rank input \<noteq> 4 \<and> format \<noteq> CUDNN_TENSOR_NCHW \<and> r = Inl OnlyNCHWForNon4D)
    \<or> (\<exists>descriptor. r = Inr descriptor \<and>
          ((\<exists>n c h w. cudnnSetTensor4dDescriptor lib format (tensor_data_type input) n c h w =
               (CUDNN_STATUS_SUCCESS, descriptor))
           \<or> (\<exists>dims strides. cudnnSetTensorNdDescriptor lib (tensor_data_type input)
                 (tensor_rank input) dims strides = (CUDNN_STATUS_SUCCESS, descriptor))))"
  using assms
  by (auto simp: CreateOutputDescriptor_def Let_def CHECK_OK_STATUS_Returns GetTensorDataType_def
      RETURN_IF_ERROR_STATUS_Returns
      split: if_splits option.splits prod.splits)

text \<open>
  Claim C2, as the code has it. \<^verbatim>\<open>CreateTensorDescriptor\<close>, \<^verbatim>\<open>CreateFilterDescriptor\<close> and
  \<^verbatim>\<open>CreateConvolutionDescriptor\<close> return a descriptor and no error value: when one of them
  returns, the configuration passed its checks and every \<^verbatim>\<open>cudnnSet...\<close> call on the
  descriptor reported success; any failure ends the process at a \<^verbatim>\<open>CHECK\<close>. In particular a
  tensor configuration with both strides and a format, or with neither, ends the process.
  \<^verbatim>\<open>CreateOutputDescriptor\<close> returns either a descriptor that the library set with success,
  or a structured error (the library's, or "only NCHW" for an input that is not 4-d), or
  it ends the process; with an explicit output tensor in the configuration it returns
  what \<^verbatim>\<open>CreateTensorDescriptor\<close> returns for it.
\<close>

theorem descriptor_builders_outcome:
  "((t_stride tp = []) \<noteq> (t_format_oneof tp \<noteq> None) \<longrightarrow>
      CreateTensorDescriptor lib tp =
        Aborts (if t_data_type_oneof tp = None then CHECK_data_type_set
                else CHECK_stride_xor_format))
   \<and> (\<forall>descriptor. CreateTensorDescriptor lib tp = Returns descriptor \<longrightarrow>
        t_data_type_oneof tp \<noteq> None \<and> (t_stride tp = []) = (t_format_oneof tp \<noteq> None)
        \<and> ((\<exists>strides. cudnnSetTensorNdDescriptor lib (proto_data_type (t_data_type_oneof tp))
                (int (length (t_dimension tp))) (t_dimension tp) strides =
                (CUDNN_STATUS_SUCCESS, descriptor))
            \<or> cudnnSetTensor4dDescriptor lib (proto_format (t_format_oneof tp))
                (proto_data_type (t_data_type_oneof tp)) (t_dimension tp ! 0)
                (t_dimension tp ! 1) (t_dimension tp ! 2) (t_dimension tp ! 3) =
                (CUDNN_STATUS_SUCCESS, descriptor)))
   \<and> (\<forall>descriptor. CreateFilterDescriptor lib fp = Returns descriptor \<longrightarrow>
        f_data_type_oneof fp \<noteq> None \<and> f_format_oneof fp \<noteq> None
        \<and> cudnnSetFilterNdDescriptor lib (proto_data_type (f_data_type_oneof fp))
            (proto_format (f_format_oneof fp)) (int (length (f_dimension fp)))
            (f_dimension fp) = (CUDNN_STATUS_SUCCESS, descriptor))
   \<and> (\<forall>descriptor. CreateConvolutionDescriptor lib cp = Returns descriptor \<longrightarrow>
        c_compute_mode_oneof cp \<noteq> None
        \<and> (let rank = max (int (length (c_pad cp)))
                        (max (int (length (c_filter_stride cp))) (int (length (c_dilation cp))))
           in \<exists>set grouped.
             cudnnSetConvolutionNdDescriptor lib rank (add_until rank 0 (c_pad cp))
               (add_until rank 1 (c_filter_stride cp)) (add_until rank 1 (c_dilation cp))
               (c_mode cp) (proto_data_type (c_compute_mode_oneof cp)) =
               (CUDNN_STATUS_SUCCESS, set)
             \<and> (if 0 < sint (c_group_count cp)
                 then cudnnSetConvolutionGroupCount lib set (c_group_count cp) =
                        (CUDNN_STATUS_SUCCESS, grouped)
                 else grouped = set)
             \<and> cudnnSetConvolutionMathType lib grouped (c_math_type cp) =
                 (CUDNN_STATUS_SUCCESS, descriptor)))
   \<and> (\<forall>r. CreateOutputDescriptor lib format input filter_desc convolution = Returns r \<longrightarrow>
        (\<exists>status. status \<noteq> CUDNN_STATUS_SUCCESS \<and> r = Inl (CudnnError status))
        \<or> (tensor_rank input \<noteq> 4 \<and> format \<noteq> CUDNN_TENSOR_NCHW \<and> r = Inl OnlyNCHWForNon4D)
        \<or> (\<exists>descriptor. r = Inr descriptor \<and>
              ((\<exists>n c h w. cudnnSetTensor4dDescriptor lib format (tensor_data_type input) n c h w =
                   (CUDNN_STATUS_SUCCESS, descriptor))
               \<or> (\<exists>dims strides. cudnnSetTensorNdDescriptor lib (tensor_data_type input)
                     (tensor_rank input) dims strides = (CUDNN_STATUS_SUCCESS, descriptor)))))
   \<and> (\<forall>r. CreateOutputDescriptor_config lib cfg input filter_desc convolution = Returns r \<longrightarrow>
        (case cfg_output cfg of
           Some output_proto \<Rightarrow>
             \<exists>descriptor. r = Inr descriptor \<and>
               CreateTensorDescriptor lib output_proto = Returns descriptor
         | None \<Rightarrow>
             CreateOutputDescriptor lib (proto_format (t_format_oneof (cfg_input cfg)))
               input filter_desc convolution = Returns r))"
proof -
  have config: "case cfg_output cfg of
           Some output_proto \<Rightarrow>
             \<exists>descriptor. r = Inr descriptor \<and>
               CreateTensorDescriptor lib output_proto = Returns descriptor
         | None \<Rightarrow>
             CreateOutputDescriptor lib (proto_format (t_format_oneof (cfg_input cfg)))
               input filter_desc convolution = Returns r"
    if "CreateOutputDescriptor_config lib cfg input filter_desc convolution = Returns r" for r
    using that by (auto simp: CreateOutputDescriptor_config_def split: option.splits outcome.splits)
  show ?thesis
    using CreateTensorDescriptor_malformed [of tp lib]
      CreateTensorDescriptor_Returns [of lib tp]
      CreateFilterDescriptor_Returns [of lib fp]
      CreateConvolutionDescriptor_Returns [of lib cp]
      CreateOutputDescriptor_Returns [of lib format input filter_desc convolution]
      config
    by (intro conjI allI impI) blast+
qed

text \<open>
  On the sample library the sample configurations build the sample descriptors and the
  output \<open>[1, 1, 2, 2]\<close>; the sample tensor with strides added to its format ends the
  process.
\<close>

theorem descriptor_builders_outcome_witness:
  "CreateTensorDescriptor sample_cudnn sample_tensor_proto = Returns sample_input
   \<and> cudnnSetTensor4dDescriptor sample_cudnn CUDNN_TENSOR_NCHW CUDNN_DATA_FLOAT 1 1 4 4 =
       (CUDNN_STATUS_SUCCESS, sample_input)
   \<and> CreateFilterDescriptor sample_cudnn sample_filter_proto = Returns sample_filter
   \<and> cudnnSetFilterNdDescriptor sample_cudnn CUDNN_DATA_FLOAT CUDNN_TENSOR_NCHW 4
        [1, 1, 3, 3] = (CUDNN_STATUS_SUCCESS, sample_filter)
   \<and> CreateConvolutionDescriptor sample_cudnn sample_convolution_proto = Returns sample_convolution
   \<and> CreateOutputDescriptor_config sample_cudnn
        \<lparr>cfg_input = sample_tensor_proto, cfg_output = None\<rparr>
        sample_input sample_filter sample_convolution = Returns (Inr sample_output)
   \<and> CreateTensorDescriptor sample_cudnn (sample_tensor_proto\<lparr>t_stride := [16, 16, 4, 1]\<rparr>) =
       Aborts CHECK_stride_xor_format"
proof -
  note inst = descriptor_builders_outcome [of "sample_tensor_proto\<lparr>t_stride := [16, 16, 4, 1]\<rparr>"
      sample_cudnn sample_filter_proto sample_convolution_proto CUDNN_TENSOR_NCHW sample_input
      sample_filter sample_convolution "\<lparr>cfg_input = sample_tensor_proto, cfg_output = None\<rparr>"]
  note inst_tensor = descriptor_builders_outcome [of sample_tensor_proto sample_cudnn
      sample_filter_proto sample_convolution_proto CUDNN_TENSOR_NCHW sample_input
      sample_filter sample_convolution "\<lparr>cfg_input = sample_tensor_proto, cfg_output = None\<rparr>"]
  have malformed: "CreateTensorDescriptor sample_cudnn (sample_tensor_proto\<lparr>t_stride := [16, 16, 4, 1]\<rparr>) =
       Aborts CHECK_stride_xor_format"
    using inst by (simp add: sample_tensor_proto_def)
  have tensor: "CreateTensorDescriptor sample_cudnn sample_tensor_proto = Returns sample_input"
    by (simp add: CreateTensorDescriptor_def sample_tensor_proto_def sample_cudnn_def
        sample_input_def CHECK_OK_STATUS_def proto_data_type_def proto_format_def)
  have set: "cudnnSetTensor4dDescriptor sample_cudnn CUDNN_TENSOR_NCHW CUDNN_DATA_FLOAT 1 1 4 4 =
       (CUDNN_STATUS_SUCCESS, sample_input)"
    by (simp add: sample_cudnn_def sample_input_def)
  have filter: "CreateFilterDescriptor sample_cudnn sample_filter_proto = Returns sample_filter"
    by (simp add: CreateFilterDescriptor_def sample_filter_proto_def sample_cudnn_def
        sample_filter_def CHECK_OK_STATUS_def proto_data_type_def proto_format_def)
  with inst_tensor
  have set_filter: "cudnnSetFilterNdDescriptor sample_cudnn CUDNN_DATA_FLOAT CUDNN_TENSOR_NCHW 4
      [1, 1, 3, 3] = (CUDNN_STATUS_SUCCESS, sample_filter)"
    by (simp add: sample_filter_proto_def proto_data_type_def proto_format_def)
  have conv: "CreateConvolutionDescriptor sample_cudnn sample_convolution_proto =
      Returns sample_convolution"
    by (simp add: CreateConvolutionDescriptor_def sample_convolution_proto_def sample_cudnn_def
        sample_convolution_def CHECK_OK_STATUS_def proto_data_type_def add_until.simps)
  have out: "CreateOutputDescriptor_config sample_cudnn
        \<lparr>cfg_input = sample_tensor_proto, cfg_output = None\<rparr>
        sample_input sample_filter sample_convolution = Returns (Inr sample_output)"
    by (simp add: CreateOutputDescriptor_config_def CreateOutputDescriptor_def
        sample_tensor_proto_def sample_cudnn_def sample_input_def sample_filter_def
        sample_convolution_def sample_output_def CHECK_OK_STATUS_def RETURN_IF_ERROR_STATUS_def
        proto_format_def documented_2d_output_dim_def documented_output_dim_def
        int_divide_one slot_def GetTensorDataType_def)
  show ?thesis
    using malformed tensor set filter set_filter conv out by blast
qed

text \<open>
  Claim C2 as stated fails on a malformed tensor configuration: with both strides and a
  format, and with neither, \<^verbatim>\<open>CreateTensorDescriptor\<close> ends the process at its \<^verbatim>\<open>CHECK_EQ\<close>
  and returns no error to its caller.
\<close>

theorem descriptor_builders_counterexample:
  "CreateTensorDescriptor sample_cudnn
     \<lparr>t_data_type_oneof = Some CUDNN_DATA_FLOAT, t_dimension = [1, 1, 4, 4],
      t_stride = [16, 16, 4, 1], t_format_oneof = Some CUDNN_TENSOR_NCHW\<rparr> =
     Aborts CHECK_stride_xor_format
   \<and> CreateTensorDescriptor sample_cudnn
     \<lparr>t_data_type_oneof = Some CUDNN_DATA_FLOAT, t_dimension = [1, 1, 4, 4],
      t_stride = [], t_format_oneof = None\<rparr> =
     Aborts CHECK_stride_xor_format"
  by (simp add: CreateTensorDescriptor_def)

end
